theory Spec2Isabelle
  imports
    Complex_Main
    "HOL-Library.Char_ord"
    "HOL-Library.List_Lexorder"
    "HOL-Library.Product_Lexorder"
    "HOL-Library.Multiset"
begin

section \<open>Strings and numbers as Python renders them\<close>

text \<open>
  \<open>str(n)\<close> for an integer, as an f-string renders \<open>{start_year}\<close>: decimal digits,
  most significant first, a leading minus sign for a negative number.
\<close>

definition digit_char :: "nat \<Rightarrow> char" where
  "digit_char d = char_of (48 + d)"

fun str_nat :: "nat \<Rightarrow> string" where
  "str_nat n = (if n < 10 then [digit_char n] else str_nat (n div 10) @ [digit_char (n mod 10)])"

definition str_int :: "int \<Rightarrow> string" where
  "str_int i = (if i < 0 then CHR ''-'' # str_nat (nat (- i)) else str_nat (nat i))"

text \<open>\<open>sep.join(parts)\<close>.\<close>

fun join :: "string \<Rightarrow> string list \<Rightarrow> string" where
  "join sep [] = []"
| "join sep [x] = x"
| "join sep (x # y # zs) = x @ sep @ join sep (y # zs)"

section \<open>The cache key of a data request (app.py, fetch\_data)\<close>

text \<open>
  \<^verbatim>\<open>cache_key = f"{indicator}_{'_'.join(countries)}_{start_year}_{end_year}"\<close>
  The country codes enter the key in the order of the list the caller passes.
\<close>

definition cache_key :: "string \<Rightarrow> string list \<Rightarrow> int \<Rightarrow> int \<Rightarrow> string" where
  "cache_key indicator countries start_year end_year =
     indicator @ ''_'' @ join ''_'' countries @ ''_'' @ str_int start_year @ ''_'' @ str_int end_year"

text \<open>A country code as the key construction can tell apart: not empty, no underscore.\<close>

definition plain_code :: "string \<Rightarrow> bool" where
  "plain_code c \<longleftrightarrow> c \<noteq> [] \<and> CHR ''_'' \<notin> set c"


section \<open>Exceptions and floating-point values\<close>

text \<open>
  The exceptions the modelled code can raise. A function that can raise returns
  \<open>exn + 'a\<close>, with \<open>Inl\<close> for the exception.
\<close>

datatype exn = OSError | JSONDecodeError | KeyError | TypeError | ValueError
  | OverflowError | RequestException | HTTPError

text \<open>
  A float result that may be not-a-number or infinite. Finite floats are idealised as
  reals: rounding and signed zeros are not modelled.
\<close>

datatype pyfloat = NaN | PosInf | NegInf | Fl real

text \<open>Division of two finite floats as numpy performs it: no exception on a zero divisor.\<close>

definition fdiv :: "real \<Rightarrow> real \<Rightarrow> pyfloat" where
  "fdiv a b =
     (if b = 0 then (if a > 0 then PosInf else if a < 0 then NegInf else NaN)
      else Fl (a / b))"

fun fsub :: "pyfloat \<Rightarrow> real \<Rightarrow> pyfloat" where
  "fsub (Fl x) c = Fl (x - c)"
| "fsub PosInf c = PosInf"
| "fsub NegInf c = NegInf"
| "fsub NaN c = NaN"

text \<open>Multiplication by a positive finite constant.\<close>

fun fscale :: "pyfloat \<Rightarrow> real \<Rightarrow> pyfloat" where
  "fscale (Fl x) c = Fl (x * c)"
| "fscale PosInf c = PosInf"
| "fscale NegInf c = NegInf"
| "fscale NaN c = NaN"

section \<open>The observation table\<close>

text \<open>
  A row of the data frame the client builds: the columns \<open>country\<close>, \<open>country_code\<close>,
  \<open>year\<close> and \<open>value\<close> (here \<open>val\<close>). A table is the list of its rows in frame order;
  the frames of this program carry the default positional index, so the label of a row
  is its position. \<open>sort_values\<close> is a stable sort here: a table has one row for a country
  and a year, so rows that tie on a sort key belong to different countries and their
  order enters no result.
\<close>

record obs =
  country :: string
  country_code :: string
  year :: int
  val :: real

type_synonym table = "obs list"

text \<open>\<open>df['country'].unique()\<close>: the distinct values in order of first appearance.\<close>

definition unique :: "'a list \<Rightarrow> 'a list" where
  "unique xs = rev (remdups (rev xs))"

text \<open>\<open>df[df['country'] == c]\<close>: the rows of one country, in frame order.\<close>

definition rows_of :: "table \<Rightarrow> string \<Rightarrow> table" where
  "rows_of df c = filter (\<lambda>r. country r = c) df"

section \<open>Summary statistics (helpers.py, calculate\_statistics)\<close>

definition mean :: "real list \<Rightarrow> real" where
  "mean xs = sum_list xs / real (length xs)"

definition median :: "real list \<Rightarrow> real" where
  "median xs =
     (let s = sort xs; n = length xs
      in if odd n then s ! (n div 2) else (s ! (n div 2 - 1) + s ! (n div 2)) / 2)"

text \<open>The sample standard deviation (\<open>ddof = 1\<close>): not a number for fewer than two values.\<close>

definition std :: "real list \<Rightarrow> pyfloat" where
  "std xs =
     (if length xs < 2 then NaN
      else Fl (sqrt (sum_list (map (\<lambda>x. (x - mean xs)\<^sup>2) xs) / real (length xs - 1))))"

record stats =
  s_country :: string
  s_mean :: real
  s_median :: real
  s_min :: real
  s_max :: real
  s_std :: pyfloat
  s_latest :: real

text \<open>
  \<^verbatim>\<open>df.groupby('country')['value'].agg([... ('latest', 'last')]).reset_index()\<close>
  One row per country, the countries in sorted order; each aggregate runs over the
  values of the country's rows in frame order, and \<open>last\<close> is the value of the last of
  these rows.
\<close>

definition calculate_statistics :: "table \<Rightarrow> stats list" where
  "calculate_statistics df =
     map (\<lambda>c. let vs = map val (rows_of df c)
              in \<lparr>s_country = c, s_mean = mean vs, s_median = median vs,
                  s_min = Min (set vs), s_max = Max (set vs), s_std = std vs,
                  s_latest = last vs\<rparr>)
         (sort (remdups (map country df)))"

text \<open>
  \<^verbatim>\<open>latest = df.sort_values('year').groupby('country').tail(1)\<close>
  \<^verbatim>\<open>return latest.sort_values('value', ascending=False)\<close>
  The sibling that sorts by year before it takes each country's last row.
\<close>

fun tail1 :: "table \<Rightarrow> table" where
  "tail1 [] = []"
| "tail1 (r # rs) = (if country r \<in> country ` set rs then tail1 rs else r # tail1 rs)"

definition get_latest_values :: "table \<Rightarrow> table" where
  "get_latest_values df = sort_key (\<lambda>r. - val r) (tail1 (sort_key year df))"

section \<open>Year-over-year growth (helpers.py, calculate\_growth\_rate)\<close>

text \<open>A row of the returned frame: the observation and the added \<open>growth_rate\<close> column.\<close>

record growth =
  row :: obs
  growth_rate :: pyfloat

text \<open>
  \<^verbatim>\<open>df.groupby('country')['value'].pct_change()\<close>
  For each row, the value divided by the value of the previous row of the same country,
  minus one; not a number for the first row of a country. The map holds the last value
  seen for each country.
\<close>

fun pct_change :: "(string \<rightharpoonup> real) \<Rightarrow> table \<Rightarrow> pyfloat list" where
  "pct_change prev [] = []"
| "pct_change prev (r # rs) =
     (case prev (country r) of
        None \<Rightarrow> NaN
      | Some p \<Rightarrow> fsub (fdiv (val r) p) 1)
     # pct_change (prev(country r \<mapsto> val r)) rs"

text \<open>
  \<^verbatim>\<open>df = df.sort_values(['country', 'year'])\<close>
  \<^verbatim>\<open>df['growth_rate'] = df.groupby('country')['value'].pct_change() * 100\<close>
  \<^verbatim>\<open>return df\<close>
\<close>

definition calculate_growth_rate :: "table \<Rightarrow> growth list" where
  "calculate_growth_rate df =
     (let sorted_df = sort_key (\<lambda>r. (country r, year r)) df
      in map (\<lambda>(r, g). \<lparr>row = r, growth_rate = fscale g 100\<rparr>)
             (zip sorted_df (pct_change Map.empty sorted_df)))"

section \<open>Compound annual growth rate (helpers.py, calculate\_cagr)\<close>

record cagr_record =
  c_country :: string
  start_year :: int
  end_year :: int
  start_value :: real
  end_value :: real
  cagr :: pyfloat

text \<open>\<open>if start_year:\<close> on an optional integer: \<open>None\<close> and \<open>0\<close> are both false.\<close>

definition truthy :: "int option \<Rightarrow> bool" where
  "truthy y = (case y of None \<Rightarrow> False | Some n \<Rightarrow> n \<noteq> 0)"

text \<open>\<^verbatim>\<open>country_data = df[df['country'] == country].sort_values('year')\<close>\<close>

definition country_data :: "table \<Rightarrow> string \<Rightarrow> table" where
  "country_data df c = sort_key year (rows_of df c)"

text \<open>
  \<^verbatim>\<open>country_data[country_data['year'] == start_year]\<close> when a start year is given,
  \<^verbatim>\<open>country_data.iloc[[0]]\<close> otherwise; the same with the end year and
  \<^verbatim>\<open>country_data.iloc[[-1]]\<close>. The country comes from the frame, so its data has a row.
\<close>

definition start_data :: "table \<Rightarrow> int option \<Rightarrow> table" where
  "start_data cd sy = (if truthy sy then filter (\<lambda>r. year r = the sy) cd else take 1 cd)"

definition end_data :: "table \<Rightarrow> int option \<Rightarrow> table" where
  "end_data cd ey =
     (if truthy ey then filter (\<lambda>r. year r = the ey) cd else drop (length cd - 1) cd)"

text \<open>
  \<open>base ** (1 / years)\<close> on numpy floats, for \<open>years \<ge> 1\<close>: a negative base has a float
  power only when the exponent is a whole number, that is when \<open>years = 1\<close>; otherwise
  the result is not a number.
\<close>

definition root_pow :: "real \<Rightarrow> int \<Rightarrow> pyfloat" where
  "root_pow base years =
     (if base \<ge> 0 then Fl (base powr (1 / real_of_int years))
      else if years = 1 then Fl base else NaN)"

definition cagr_of :: "string \<Rightarrow> obs \<Rightarrow> obs \<Rightarrow> cagr_record" where
  "cagr_of c s e =
     \<lparr>c_country = c, start_year = year s, end_year = year e,
      start_value = val s, end_value = val e,
      cagr = fscale (fsub (root_pow (val e / val s) (year e - year s)) 1) 100\<rparr>"

text \<open>The body of the loop for one country: the record appended, if any.\<close>

definition cagr_country :: "table \<Rightarrow> int option \<Rightarrow> int option \<Rightarrow> string \<Rightarrow> cagr_record list" where
  "cagr_country df sy ey c =
     (let cd = country_data df c; sd = start_data cd sy; ed = end_data cd ey
      in if sd = [] \<or> ed = [] then []
         else let s = hd sd; e = hd ed
              in if year e - year s > 0 \<and> val s > 0 then [cagr_of c s e] else [])"

definition calculate_cagr :: "table \<Rightarrow> int option \<Rightarrow> int option \<Rightarrow> cagr_record list" where
  "calculate_cagr df sy ey = concat (map (cagr_country df sy ey) (unique (map country df)))"

section \<open>Pairwise comparison (helpers.py, compare\_countries)\<close>

datatype pyval = PStr string | PFloat pyfloat | PNone

text \<open>
  A column of a filtered frame: each value with the label of its row. Filtering keeps
  the labels of the frame it filters.
\<close>

type_synonym series = "(nat \<times> real) list"

definition value_series :: "table \<Rightarrow> string \<Rightarrow> series" where
  "value_series df c = map (\<lambda>(i, r). (i, val r)) (filter (\<lambda>(i, r). country r = c) (enumerate 0 df))"

text \<open>
  \<open>Series.corr\<close> first aligns the two series on their labels (an inner join), then
  computes Pearson's coefficient over the pairs; it is not a number when no label is
  common or a variance is zero.
\<close>

definition align :: "series \<Rightarrow> series \<Rightarrow> (real \<times> real) list" where
  "align a b = concat (map (\<lambda>(i, x). map (\<lambda>(j, y). (x, y)) (filter (\<lambda>(j, y). j = i) b)) a)"

definition pearson :: "(real \<times> real) list \<Rightarrow> pyfloat" where
  "pearson ps =
     (let xs = map fst ps; ys = map snd ps;
          sxy = sum_list (map (\<lambda>(x, y). (x - mean xs) * (y - mean ys)) ps);
          sxx = sum_list (map (\<lambda>x. (x - mean xs)\<^sup>2) xs);
          syy = sum_list (map (\<lambda>y. (y - mean ys)\<^sup>2) ys)
      in if ps = [] \<or> sxx = 0 \<or> syy = 0 then NaN else Fl (sxy / sqrt (sxx * syy)))"

definition corr :: "series \<Rightarrow> series \<Rightarrow> pyfloat" where
  "corr a b = pearson (align a b)"

text \<open>The returned dictionary, as the list of its items; \<open>{}\<close> is the empty list.\<close>

definition compare_countries :: "table \<Rightarrow> string \<Rightarrow> string \<Rightarrow> (string \<times> pyval) list" where
  "compare_countries df country1 country2 =
     (let data1 = value_series df country1; data2 = value_series df country2;
          v1 = map snd data1; v2 = map snd data2
      in if data1 = [] \<or> data2 = [] then []
         else [(''country1'', PStr country1),
               (''country2'', PStr country2),
               (''mean_diff'', PFloat (Fl (mean v1 - mean v2))),
               (''median_diff'', PFloat (Fl (median v1 - median v2))),
               (''latest_diff'', PFloat (Fl (last v1 - last v2))),
               (''correlation'',
                  if length data1 = length data2 then PFloat (corr data1 data2) else PNone)])"

section \<open>Parsing an integer from a string\<close>

text \<open>
  \<open>int(s)\<close> on a string: surrounding blanks are stripped, then an optional sign and
  decimal digits, where single underscores may separate digits. Anything else raises
  \<open>ValueError\<close>, and so does a string of more than 4300 digits (the interpreter's default
  limit; underscores, sign and blanks do not count). The blanks that are stripped are
  tab, line feed, vertical tab, form feed, carriage return, space, and the two blanks
  beyond ASCII, next line and no-break space; the separators U+001C to U+001F are not.
  A character here is a code point below 256: a string with any other character, among
  them the digits and blanks of other scripts that \<open>int\<close> accepts as well, is not a
  string of this model.
\<close>

definition py_isspace :: "char \<Rightarrow> bool" where
  "py_isspace c =
     (let n = (of_char c :: nat)
      in (9 \<le> n \<and> n \<le> 13) \<or> n = 32 \<or> n = 133 \<or> n = 160)"

definition strip :: "string \<Rightarrow> string" where
  "strip s = rev (dropWhile py_isspace (rev (dropWhile py_isspace s)))"

definition is_digit :: "char \<Rightarrow> bool" where
  "is_digit c = (let n = (of_char c :: nat) in 48 \<le> n \<and> n \<le> 57)"

definition digit_val :: "char \<Rightarrow> nat" where
  "digit_val c = of_char c - 48"

text \<open>The flag tells whether the previous character was a digit.\<close>

fun digits_value :: "bool \<Rightarrow> nat \<Rightarrow> string \<Rightarrow> nat option" where
  "digits_value after_digit acc [] = (if after_digit then Some acc else None)"
| "digits_value after_digit acc (c # cs) =
     (if is_digit c then digits_value True (acc * 10 + digit_val c) cs
      else if c = CHR ''_'' \<and> after_digit then digits_value False acc cs
      else None)"

definition digits_of :: "string \<Rightarrow> nat option" where
  "digits_of body =
     (if length (filter is_digit body) > 4300 then None else digits_value False 0 body)"

definition py_int :: "string \<Rightarrow> exn + int" where
  "py_int s =
     (case strip s of
        [] \<Rightarrow> Inl ValueError
      | c # cs \<Rightarrow>
          (if c = CHR ''-'' then
             (case digits_of cs of None \<Rightarrow> Inl ValueError | Some n \<Rightarrow> Inr (- int n))
           else if c = CHR ''+'' then
             (case digits_of cs of None \<Rightarrow> Inl ValueError | Some n \<Rightarrow> Inr (int n))
           else
             (case digits_of (c # cs) of None \<Rightarrow> Inl ValueError | Some n \<Rightarrow> Inr (int n))))"

section \<open>JSON values\<close>

datatype json = JNull | JBool bool | JInt int | JFloat real | JStr string
  | JArr "json list" | JObj "(string \<times> json) list"

text \<open>
  \<open>int(x)\<close> on a decoded JSON value: a string is parsed, an integer is itself, a float
  is cut towards zero, a boolean is 0 or 1; null, a list and a dictionary raise
  \<open>TypeError\<close>.
\<close>

definition py_int_json :: "json \<Rightarrow> exn + int" where
  "py_int_json j =
     (case j of
        JStr s \<Rightarrow> py_int s
      | JInt i \<Rightarrow> Inr i
      | JFloat x \<Rightarrow> Inr (if x \<ge> 0 then \<lfloor>x\<rfloor> else \<lceil>x\<rceil>)
      | JBool b \<Rightarrow> Inr (if b then 1 else 0)
      | _ \<Rightarrow> Inl TypeError)"

section \<open>The indicator client (world\_bank.py)\<close>

text \<open>
  The value of an entry when the key is there: null, an integer, a float, a boolean, or
  any other object (a string, a list, a dictionary), given by what \<open>float()\<close> makes of
  it: the parsed number or \<open>ValueError\<close> for a string, \<open>TypeError\<close> for a list or a
  dictionary.
\<close>

datatype value_field = Null | IntVal int | FloatVal real | BoolVal bool | Other "exn + real"

text \<open>
  \<open>float(x)\<close>: an integer too large for a double raises \<open>OverflowError\<close> (from
  \<open>2 ** 1024 - 2 ** 970\<close> on, the first integer that rounds beyond the largest double).
\<close>

definition py_float :: "value_field \<Rightarrow> exn + real" where
  "py_float v =
     (case v of
        Null \<Rightarrow> Inl TypeError
      | IntVal i \<Rightarrow> (if \<bar>i\<bar> \<ge> 2 ^ 1024 - 2 ^ 970 then Inl OverflowError else Inr (real_of_int i))
      | FloatVal x \<Rightarrow> Inr x
      | BoolVal b \<Rightarrow> Inr (if b then 1 else 0)
      | Other outcome \<Rightarrow> outcome)"

text \<open>
  An entry of the provider's records array, as the loop reads it: what each of its four
  subscriptions gives. A subscription raises \<open>KeyError\<close> when the key is missing and
  \<open>TypeError\<close> when the object subscripted is no dictionary. The country name is
  \<open>entry['country']['value']\<close>; a name and a code that are there are strings, the date
  is any JSON value.
\<close>

record entry =
  e_country :: "exn + string"
  countryiso3code :: "exn + string"
  date :: "exn + json"
  e_value :: "exn + value_field"

text \<open>
  The decoded body \<open>json_data\<close>: shorter than two elements, a second element that is
  null, a second element that is iterated as a list of entries, or any other shape, on
  which \<open>len\<close>, the indexing or the iteration raises (\<open>TypeError\<close> for a number,
  \<open>KeyError\<close> for a dictionary of two or more keys).
\<close>

datatype envelope = Short | NullRecords | Records "entry list" | Misshapen exn

text \<open>
  What \<open>session.get\<close> brings back for one request: no reply at all (the call raises), or
  a reply with a status code and a body that is JSON or not.
\<close>

datatype response = Unreachable | Reply nat "envelope option"

text \<open>The remote provider: the reply to the request for an indicator, a country and a year range.\<close>

type_synonym provider = "string \<Rightarrow> string \<Rightarrow> int \<Rightarrow> int \<Rightarrow> response"

text \<open>
  The loop over \<open>json_data[1]\<close>. \<open>entry['value']\<close> is read first; an entry whose value
  is null is skipped. Otherwise the record is built, in this order:
  \<open>entry['country']['value']\<close>, \<open>entry['countryiso3code']\<close>, \<open>int(entry['date'])\<close>,
  \<open>float(entry['value'])\<close>; the first of these that raises ends the loop with its
  exception, and the records built so far are lost with it.
\<close>

fun parse_entries :: "entry list \<Rightarrow> table \<Rightarrow> exn + table" where
  "parse_entries [] data_records = Inr data_records"
| "parse_entries (e # es) data_records =
     (case e_value e of
        Inl x \<Rightarrow> Inl x
      | Inr v \<Rightarrow>
          (if v = Null then parse_entries es data_records
           else case e_country e of
             Inl x \<Rightarrow> Inl x
           | Inr c \<Rightarrow>
               (case countryiso3code e of
                  Inl x \<Rightarrow> Inl x
                | Inr cc \<Rightarrow>
                    (case date e of
                       Inl x \<Rightarrow> Inl x
                     | Inr d \<Rightarrow>
                         (case py_int_json d of
                            Inl x \<Rightarrow> Inl x
                          | Inr y \<Rightarrow>
                              (case py_float v of
                                 Inl x \<Rightarrow> Inl x
                               | Inr f \<Rightarrow>
                                   parse_entries es
                                     (data_records @
                                      [\<lparr>country = c, country_code = cc, year = y, val = f\<rparr>])))))))"

text \<open>
  \<open>_fetch_country_indicator\<close>: the request, \<open>raise_for_status\<close> (an error for a status
  from 400 to 599), \<open>response.json()\<close>, then the parse.
\<close>

definition fetch_country_indicator :: "provider \<Rightarrow> string \<Rightarrow> string \<Rightarrow> int \<Rightarrow> int \<Rightarrow> exn + table" where
  "fetch_country_indicator session_get indicator_code code start_yr end_yr =
     (case session_get indicator_code code start_yr end_yr of
        Unreachable \<Rightarrow> Inl RequestException
      | Reply status body \<Rightarrow>
          (if 400 \<le> status \<and> status < 600 then Inl HTTPError
           else case body of
             None \<Rightarrow> Inl JSONDecodeError
           | Some (Misshapen x) \<Rightarrow> Inl x
           | Some Short \<Rightarrow> Inr []
           | Some NullRecords \<Rightarrow> Inr []
           | Some (Records es) \<Rightarrow> parse_entries es []))"

text \<open>
  The loop of \<open>fetch_indicator\<close>: \<open>all_data.extend(data)\<close> when the country's fetch
  returns, \<open>continue\<close> when it raises.
\<close>

fun collect :: "provider \<Rightarrow> string \<Rightarrow> int \<Rightarrow> int \<Rightarrow> string list \<Rightarrow> table \<Rightarrow> table" where
  "collect session_get indicator_code start_yr end_yr [] all_data = all_data"
| "collect session_get indicator_code start_yr end_yr (code # codes) all_data =
     (case fetch_country_indicator session_get indicator_code code start_yr end_yr of
        Inr data \<Rightarrow> collect session_get indicator_code start_yr end_yr codes (all_data @ data)
      | Inl e \<Rightarrow> collect session_get indicator_code start_yr end_yr codes all_data)"

text \<open>
  \<open>fetch_indicator\<close>: the empty frame with the four columns when nothing was collected,
  otherwise the frame sorted by country and year. Both are tables; the result is
  \<open>Inr\<close> of a table when the call returns and \<open>Inl\<close> when it raises.
\<close>

definition fetch_indicator :: "provider \<Rightarrow> string \<Rightarrow> string list \<Rightarrow> int \<Rightarrow> int \<Rightarrow> exn + table" where
  "fetch_indicator session_get indicator_code country_codes start_yr end_yr =
     (let all_data = collect session_get indicator_code start_yr end_yr country_codes []
      in if all_data = [] then Inr []
         else Inr (sort_key (\<lambda>r. (country r, year r)) all_data))"


section \<open>The disk cache (helpers.py, save\_data\_cache and load\_data\_cache)\<close>

text \<open>
  A file of the cache directory: one that \<open>open\<close> cannot read, one whose text is not
  JSON, or one holding a JSON document. \<open>json.dump\<close> followed by \<open>json.load\<close> gives the
  document back. The file system maps a path to its file; writing is taken to succeed.
\<close>

datatype cache_file = NoAccess | Garbage | Doc json

type_synonym fs = "string \<rightharpoonup> cache_file"

text \<open>A reading of the local clock, in seconds.\<close>

type_synonym datetime = real

definition path_join :: "string \<Rightarrow> string \<Rightarrow> string" where
  "path_join a b =
     (if b \<noteq> [] \<and> hd b = CHR ''/'' then b
      else if a = [] \<or> last a = CHR ''/'' then a @ b
      else a @ ''/'' @ b)"

definition cache_path :: "string \<Rightarrow> string \<Rightarrow> string" where
  "cache_path cache_dir filename = path_join cache_dir (filename @ ''.json'')"

text \<open>\<open>data.to_dict(orient='records')\<close>: one dictionary per row.\<close>

definition to_record :: "obs \<Rightarrow> json" where
  "to_record r =
     JObj [(''country'', JStr (country r)), (''country_code'', JStr (country_code r)),
           (''year'', JInt (year r)), (''value'', JFloat (val r))]"

text \<open>
  \<open>save_data_cache\<close>; \<open>isoformat\<close> is the standard library's rendering of the clock
  reading.
\<close>

definition save_data_cache ::
  "(datetime \<Rightarrow> string) \<Rightarrow> table \<Rightarrow> string \<Rightarrow> string \<Rightarrow> datetime \<Rightarrow> fs \<Rightarrow> fs" where
  "save_data_cache isoformat data filename cache_dir now files =
     files(cache_path cache_dir filename \<mapsto>
       Doc (JObj [(''timestamp'', JStr (isoformat now)),
                  (''data'', JArr (map to_record data))]))"

text \<open>\<open>obj[key]\<close> with a string key: a dictionary is looked up, anything else raises.\<close>

definition getitem :: "json \<Rightarrow> string \<Rightarrow> exn + json" where
  "getitem j k =
     (case j of
        JObj kvs \<Rightarrow> (case map_of kvs k of None \<Rightarrow> Inl KeyError | Some v \<Rightarrow> Inr v)
      | _ \<Rightarrow> Inl TypeError)"

text \<open>
  A frame read back from the cache: an observation table, or a frame of another shape
  that pandas builds from the cached data.
\<close>

datatype frame = Table table | Other json

definition obs_of_record :: "json \<Rightarrow> obs option" where
  "obs_of_record j =
     (case j of
        JObj [(k1, JStr c), (k2, JStr cc), (k3, JInt y), (k4, JFloat v)] \<Rightarrow>
          (if k1 = ''country'' \<and> k2 = ''country_code'' \<and> k3 = ''year'' \<and> k4 = ''value''
           then Some \<lparr>country = c, country_code = cc, year = y, val = v\<rparr> else None)
      | _ \<Rightarrow> None)"

fun those_obs :: "json list \<Rightarrow> table option" where
  "those_obs [] = Some []"
| "those_obs (j # js) =
     (case obs_of_record j of
        None \<Rightarrow> None
      | Some r \<Rightarrow> (case those_obs js of None \<Rightarrow> None | Some rs \<Rightarrow> Some (r # rs)))"

text \<open>
  \<open>pd.DataFrame(data)\<close>: a list of observation records becomes the table of these rows
  in order. What pandas does with data of any other shape (a frame of that shape, or an
  exception) is the parameter \<open>other\<close>.
\<close>

definition DataFrame :: "(json \<Rightarrow> exn + frame) \<Rightarrow> json \<Rightarrow> exn + frame" where
  "DataFrame other j =
     (case j of
        JArr rs \<Rightarrow> (case those_obs rs of Some t \<Rightarrow> Inr (Table t) | None \<Rightarrow> other j)
      | _ \<Rightarrow> other j)"

text \<open>
  The \<open>try\<close> block of \<open>load_data_cache\<close>. \<open>fromisoformat\<close> is the standard library's
  parser, \<open>None\<close> where it raises; a timestamp that is not a string raises \<open>TypeError\<close>.
\<close>

definition load_body ::
  "(string \<Rightarrow> datetime option) \<Rightarrow> (json \<Rightarrow> exn + frame) \<Rightarrow> string \<Rightarrow> int \<Rightarrow> datetime \<Rightarrow> fs
     \<Rightarrow> exn + frame option" where
  "load_body fromisoformat other filepath max_age_hours now files =
     (case files filepath of
        None \<Rightarrow> Inl OSError
      | Some NoAccess \<Rightarrow> Inl OSError
      | Some Garbage \<Rightarrow> Inl JSONDecodeError
      | Some (Doc cache_data) \<Rightarrow>
          (case getitem cache_data ''timestamp'' of
             Inl e \<Rightarrow> Inl e
           | Inr (JStr ts) \<Rightarrow>
               (case fromisoformat ts of
                  None \<Rightarrow> Inl ValueError
                | Some cache_time \<Rightarrow>
                    (let age_hours = (now - cache_time) / 3600
                     in if age_hours > real_of_int max_age_hours then Inr None
                        else case getitem cache_data ''data'' of
                               Inl e \<Rightarrow> Inl e
                             | Inr d \<Rightarrow>
                                 (case DataFrame other d of
                                    Inl e \<Rightarrow> Inl e
                                  | Inr f \<Rightarrow> Inr (Some f))))
           | Inr _ \<Rightarrow> Inl TypeError))"

text \<open>
  \<open>load_data_cache\<close>: \<open>None\<close> when the file does not exist; otherwise the \<open>try\<close> block,
  and \<open>None\<close> again when it raises (\<open>except Exception\<close>). The result is \<open>Inr\<close> when the
  call returns, \<open>Inl\<close> when an exception leaves it.
\<close>

definition load_data_cache ::
  "(string \<Rightarrow> datetime option) \<Rightarrow> (json \<Rightarrow> exn + frame) \<Rightarrow> string \<Rightarrow> string \<Rightarrow> int \<Rightarrow> datetime
     \<Rightarrow> fs \<Rightarrow> exn + frame option" where
  "load_data_cache fromisoformat other filename cache_dir max_age_hours now files =
     (let filepath = cache_path cache_dir filename
      in if filepath \<notin> dom files then Inr None
         else case load_body fromisoformat other filepath max_age_hours now files of
                Inl e \<Rightarrow> Inr None
              | Inr result \<Rightarrow> Inr result)"

section \<open>Fetching through the cache (app.py, fetch\_data)\<close>

text \<open>The indicator codes of \<open>WorldBankAPI.INDICATORS\<close> and the three wrappers.\<close>

definition fetch_gdp :: "provider \<Rightarrow> string list \<Rightarrow> int \<Rightarrow> int \<Rightarrow> exn + table" where
  "fetch_gdp session_get = fetch_indicator session_get ''NY.GDP.MKTP.CD''"

definition fetch_inflation :: "provider \<Rightarrow> string list \<Rightarrow> int \<Rightarrow> int \<Rightarrow> exn + table" where
  "fetch_inflation session_get = fetch_indicator session_get ''FP.CPI.TOTL.ZG''"

definition fetch_unemployment :: "provider \<Rightarrow> string list \<Rightarrow> int \<Rightarrow> int \<Rightarrow> exn + table" where
  "fetch_unemployment session_get = fetch_indicator session_get ''SL.UEM.TOTL.ZS''"

text \<open>
  \<open>fetch_data\<close>: the cached frame when the read under the key is a hit; otherwise the
  fetch for the indicator (an empty frame for an unknown indicator), written to the
  cache under the same key when it is not empty. The result is the frame and the file
  system after the call. The cache directory and the window are the defaults, \<open>data\<close>
  and 24 hours; one clock reading serves the whole call, and the in-memory memo of the
  decorator is not modelled.
\<close>

definition fetch_data ::
  "(datetime \<Rightarrow> string) \<Rightarrow> (string \<Rightarrow> datetime option) \<Rightarrow> (json \<Rightarrow> exn + frame) \<Rightarrow> provider
     \<Rightarrow> string \<Rightarrow> string list \<Rightarrow> int \<Rightarrow> int \<Rightarrow> datetime \<Rightarrow> fs \<Rightarrow> exn + frame \<times> fs" where
  "fetch_data isoformat fromisoformat other session_get indicator countries start_yr end_yr now files =
     (let key = cache_key indicator countries start_yr end_yr
      in case load_data_cache fromisoformat other key ''data'' 24 now files of
           Inl e \<Rightarrow> Inl e
         | Inr (Some cached_data) \<Rightarrow> Inr (cached_data, files)
         | Inr None \<Rightarrow>
             (let fetched =
                    (if indicator = ''GDP''
                       then map_sum id Some (fetch_gdp session_get countries start_yr end_yr)
                     else if indicator = ''Inflation''
                       then map_sum id Some (fetch_inflation session_get countries start_yr end_yr)
                     else if indicator = ''Unemployment''
                       then map_sum id Some (fetch_unemployment session_get countries start_yr end_yr)
                     else Inr None)
              in case fetched of
                   Inl e \<Rightarrow> Inl e
                 | Inr None \<Rightarrow> Inr (Table [], files)
                 | Inr (Some data) \<Rightarrow>
                     (if data \<noteq> []
                      then Inr (Table data, save_data_cache isoformat data key ''data'' now files)
                      else Inr (Table data, files))))"

text \<open>The \<open>(country_code, year, value)\<close> triples of a table.\<close>

definition triples :: "table \<Rightarrow> (string \<times> int \<times> real) set" where
  "triples t = (\<lambda>r. (country_code r, year r, val r)) ` set t"

text \<open>
  An observation converted from an entry: the name and the code copied, the year
  \<open>int(entry['date'])\<close>, the value \<open>float(entry['value'])\<close> of a value that is not null.
\<close>

definition converts :: "entry \<Rightarrow> obs \<Rightarrow> bool" where
  "converts e r \<longleftrightarrow>
     e_country e = Inr (country r) \<and> countryiso3code e = Inr (country_code r) \<and>
     (\<exists>d. date e = Inr d \<and> py_int_json d = Inr (year r)) \<and>
     (\<exists>v. e_value e = Inr v \<and> v \<noteq> Null \<and> py_float v = Inr (val r))"

text \<open>
  An entry the loop gets through: its value is there and null, or its value is there and
  every subscription and conversion of the record returns.
\<close>

definition readable :: "entry \<Rightarrow> bool" where
  "readable e =
     (case e_value e of
        Inl x \<Rightarrow> False
      | Inr v \<Rightarrow>
          v = Null \<or>
          (\<not> isl (e_country e) \<and> \<not> isl (countryiso3code e) \<and>
           (case date e of Inl x \<Rightarrow> False | Inr d \<Rightarrow> \<not> isl (py_int_json d)) \<and>
           \<not> isl (py_float v)))"

text \<open>
  The state of \<open>pct_change\<close> after row \<open>l\<close> of a frame sorted by country: the last value
  of \<open>l\<close>'s country is \<open>l\<close>'s, and no later country has been seen.
\<close>

definition seen :: "(string \<rightharpoonup> real) \<Rightarrow> obs \<Rightarrow> bool" where
  "seen prev l \<longleftrightarrow> prev (country l) = Some (val l) \<and> (\<forall>c. country l < c \<longrightarrow> prev c = None)"

section \<open>Sample data\<close>

definition mk_obs :: "string \<Rightarrow> int \<Rightarrow> real \<Rightarrow> obs" where
  "mk_obs c y v = \<lparr>country = c, country_code = c, year = y, val = v\<rparr>"

text \<open>A well-formed entry: name and code \<open>c\<close>, the date string \<open>d\<close>, the value \<open>v\<close>.\<close>

definition mk_entry :: "string \<Rightarrow> string \<Rightarrow> value_field \<Rightarrow> entry" where
  "mk_entry c d v =
     \<lparr>e_country = Inr c, countryiso3code = Inr c, date = Inr (JStr d), e_value = Inr v\<rparr>"

text \<open>A provider that cannot be reached for country A and answers for every other country.\<close>

definition sample_provider :: provider where
  "sample_provider ind code s e =
     (if code = ''A'' then Unreachable
      else Reply 200 (Some (Records [mk_entry code ''2020'' (FloatVal 3), mk_entry code ''2019'' Null])))"

text \<open>A provider whose second entry lacks the value key.\<close>

definition keyless_provider :: provider where
  "keyless_provider ind code s e =
     Reply 200 (Some (Records [mk_entry code ''2019'' (FloatVal 1),
                               (mk_entry code ''2020'' Null)\<lparr>e_value := Inl KeyError\<rparr>]))"

text \<open>
  A provider whose second entry has a value and a date but no country code, and one whose
  entry carries an integer beyond the range of a double.
\<close>

definition codeless_provider :: provider where
  "codeless_provider ind code s e =
     Reply 200 (Some (Records [mk_entry code ''2019'' (FloatVal 1),
                               (mk_entry code ''2020'' (FloatVal 2))\<lparr>countryiso3code := Inl KeyError\<rparr>]))"

definition huge_provider :: provider where
  "huge_provider ind code s e = Reply 200 (Some (Records [mk_entry code ''2020'' (IntVal (10 ^ 400))]))"

text \<open>Any cached data that is not a list of observation records gives a frame of its own shape.\<close>

definition sample_other :: "json \<Rightarrow> exn + frame" where
  "sample_other j = Inr (Other j)"

text \<open>A clock format that knows one timestamp.\<close>

definition sample_isoformat :: "datetime \<Rightarrow> string" where
  "sample_isoformat t = ''2024-01-01T00:00:00''"

definition sample_fromisoformat :: "string \<Rightarrow> datetime option" where
  "sample_fromisoformat s = (if s = ''2024-01-01T00:00:00'' then Some 0 else None)"

section \<open>Facts about join\<close>

lemma join_Cons_nonempty: "x \<noteq> [] \<Longrightarrow> join sep (x # xs) \<noteq> []"
  by (cases xs) auto

lemma takeWhile_upto_sep: "c \<notin> set x \<Longrightarrow> takeWhile (\<lambda>a. a \<noteq> c) (x @ c # r) = x"
  by (induction x) auto

lemma sep_split_unique:
  assumes "c \<notin> set x" and "c \<notin> set y" and "x @ c # r = y @ c # s"
  shows "x = y \<and> r = s"
proof -
  have "takeWhile (\<lambda>a. a \<noteq> c) (x @ c # r) = x"
    using assms(1) by (rule takeWhile_upto_sep)
  moreover have "takeWhile (\<lambda>a. a \<noteq> c) (y @ c # s) = y"
    using assms(2) by (rule takeWhile_upto_sep)
  ultimately have "x = y" using assms(3) by simp
  with assms(3) show ?thesis by simp
qed

lemma join_underscore_inj:
  assumes "\<forall>c \<in> set xs. plain_code c" and "\<forall>c \<in> set ys. plain_code c"
    and "join ''_'' xs = join ''_'' ys"
  shows "xs = ys"
  using assms
proof (induction xs arbitrary: ys)
  case Nil
  show ?case
  proof (cases ys)
    case Nil
    then show ?thesis by simp
  next
    case (Cons y ys')
    with Nil.prems have "y \<noteq> []" by (simp add: plain_code_def)
    then have "join ''_'' (y # ys') \<noteq> []" by (rule join_Cons_nonempty)
    with Nil.prems Cons show ?thesis by simp
  qed
next
  case (Cons x xs')
  from Cons.prems have px: "x \<noteq> []" "CHR ''_'' \<notin> set x"
    by (simp_all add: plain_code_def)
  show ?case
  proof (cases ys)
    case Nil
    have "join ''_'' (x # xs') \<noteq> []" using px(1) by (rule join_Cons_nonempty)
    with Cons.prems Nil show ?thesis by simp
  next
    case ys: (Cons y ys')
    from Cons.prems ys have py: "y \<noteq> []" "CHR ''_'' \<notin> set y"
      by (simp_all add: plain_code_def)
    show ?thesis
    proof (cases xs')
      case xn: Nil
      show ?thesis
      proof (cases ys')
        case Nil
        with Cons.prems ys xn show ?thesis by simp
      next
        case (Cons y2 ys2)
        with Cons.prems(3) ys xn have "x = y @ CHR ''_'' # join ''_'' (y2 # ys2)" by simp
        then have "CHR ''_'' \<in> set x" by simp
        with px show ?thesis by simp
      qed
    next
      case xc: (Cons x2 xs2)
      show ?thesis
      proof (cases ys')
        case Nil
        with Cons.prems(3) ys xc have "y = x @ CHR ''_'' # join ''_'' (x2 # xs2)" by simp
        then have "CHR ''_'' \<in> set y" by simp
        with py show ?thesis by simp
      next
        case yc: (Cons y2 ys2)
        from Cons.prems(3) ys xc yc
        have "x @ CHR ''_'' # join ''_'' xs' = y @ CHR ''_'' # join ''_'' ys'" by simp
        from sep_split_unique [OF px(2) py(2) this]
        have xy: "x = y" and js: "join ''_'' xs' = join ''_'' ys'" by simp_all
        have "xs' = ys'"
          using Cons.IH [of ys'] Cons.prems ys js by simp
        with xy show ?thesis using ys by simp
      qed
    qed
  qed
qed

section \<open>Facts about fetch\_data and its key\<close>

lemma fetch_data_hit:
  assumes "load_data_cache fromisoformat other (cache_key indicator countries s e) ''data'' 24 now files
             = Inr (Some cached)"
  shows "fetch_data isoformat fromisoformat other session_get indicator countries s e now files
           = Inr (cached, files)"
  using assms by (simp add: fetch_data_def Let_def)

lemma fetch_data_miss_gdp:
  assumes "load_data_cache fromisoformat other (cache_key ''GDP'' countries s e) ''data'' 24 now files
             = Inr None"
    and "fetch_indicator session_get ''NY.GDP.MKTP.CD'' countries s e = Inr data" and "data \<noteq> []"
  shows "fetch_data isoformat fromisoformat other session_get ''GDP'' countries s e now files
           = Inr (Table data,
                  save_data_cache isoformat data (cache_key ''GDP'' countries s e) ''data'' now files)"
  using assms by (simp add: fetch_data_def fetch_gdp_def Let_def)

lemma key_sample_1: "cache_key ''GDP'' [''USA'', ''CHN''] 2000 2023 = ''GDP_USA_CHN_2000_2023''"
  by code_simp

lemma key_sample_2: "cache_key ''GDP'' [''CHN'', ''USA''] 2000 2023 = ''GDP_CHN_USA_2000_2023''"
  by code_simp

lemma other_order_misses:
  "load_data_cache sample_fromisoformat sample_other (cache_key ''GDP'' [''CHN'', ''USA''] 2000 2023)
     ''data'' 24 0
     (save_data_cache sample_isoformat [mk_obs ''USA'' 2020 3]
        (cache_key ''GDP'' [''USA'', ''CHN''] 2000 2023) ''data'' 0 Map.empty) = Inr None"
  by (simp add: key_sample_1 key_sample_2 load_data_cache_def save_data_cache_def cache_path_def
      path_join_def Let_def)

section \<open>The cache key and the order of the country codes\<close>

text \<open>
  Claim C1, as the specification states it: the key is the same for every permutation of
  the country codes. The code joins the codes in the order given, so the requests for
  USA, CHN and for CHN, USA get different keys, and the entry written for the first is a
  miss for the second.
\<close>

theorem cache_key_permutation_counterexample:
  "mset [''CHN'', ''USA''] = mset [''USA'', ''CHN''] \<and>
   cache_key ''GDP'' [''USA'', ''CHN''] 2000 2023 \<noteq> cache_key ''GDP'' [''CHN'', ''USA''] 2000 2023 \<and>
   load_data_cache sample_fromisoformat sample_other (cache_key ''GDP'' [''CHN'', ''USA''] 2000 2023)
     ''data'' 24 0
     (save_data_cache sample_isoformat [mk_obs ''USA'' 2020 3]
        (cache_key ''GDP'' [''USA'', ''CHN''] 2000 2023) ''data'' 0 Map.empty) = Inr None"
  using other_order_misses by (simp add: key_sample_1 key_sample_2)

text \<open>
  Claim C1, amended: the key is a function of the indicator, the year range and the
  country codes in the order given. For codes that are not empty and hold no underscore,
  two requests for the same indicator and years get the same key exactly when they list
  the same codes in the same order.
\<close>

theorem cache_key_order_sensitive:
  assumes "\<forall>c \<in> set cs. plain_code c" and "\<forall>c \<in> set cs'. plain_code c"
  shows "cache_key ind cs s e = cache_key ind cs' s e \<longleftrightarrow> cs = cs'"
proof
  assume "cache_key ind cs s e = cache_key ind cs' s e"
  then have "join ''_'' cs = join ''_'' cs'"
    by (simp add: cache_key_def)
  with assms show "cs = cs'" by (rule join_underscore_inj)
next
  assume "cs = cs'"
  then show "cache_key ind cs s e = cache_key ind cs' s e" by simp
qed

theorem cache_key_order_sensitive_witness:
  "plain_code ''USA'' \<and> plain_code ''CHN'' \<and>
   (cache_key ''GDP'' [''USA'', ''CHN''] 2000 2023 = cache_key ''GDP'' [''CHN'', ''USA''] 2000 2023
      \<longleftrightarrow> [''USA'', ''CHN''] = [''CHN'', ''USA''])"
proof -
  have p: "plain_code ''USA''" "plain_code ''CHN''" by (simp_all add: plain_code_def)
  then have a: "\<forall>c \<in> set [''USA'', ''CHN'']. plain_code c"
    and b: "\<forall>c \<in> set [''CHN'', ''USA'']. plain_code c" by simp_all
  from cache_key_order_sensitive [OF a b] p show ?thesis by blast
qed

section \<open>Facts about the client\<close>

lemma py_int_2020: "py_int ''2020'' = Inr 2020"
  by code_simp

lemma py_int_2019: "py_int ''2019'' = Inr 2019"
  by code_simp

lemma py_int_separator: "py_int (char_of (28 :: nat) # ''2020'') = Inl ValueError"
  by code_simp

lemma readable_mk_entry: "readable (mk_entry c ''2020'' (FloatVal v))" "readable (mk_entry c ''2019'' (FloatVal v))"
  "readable (mk_entry c d Null)"
  by (simp_all add: readable_def mk_entry_def py_int_json_def py_float_def py_int_2020 py_int_2019)

lemma converts_mk_entry:
  "converts (mk_entry c ''2020'' (FloatVal v)) r \<longleftrightarrow> r = mk_obs c 2020 v"
  by (cases r) (auto simp: converts_def mk_entry_def mk_obs_def py_int_json_def py_float_def py_int_2020)

lemma not_isl_Inr: "\<not> isl x \<Longrightarrow> \<exists>y. x = Inr y"
  by (cases x) simp_all

lemma parse_step_unreadable: "\<not> readable e \<Longrightarrow> \<exists>x. parse_entries (e # es) acc = Inl x"
  by (auto simp: readable_def split: sum.splits)

lemma parse_step_null: "e_value e = Inr Null \<Longrightarrow> parse_entries (e # es) acc = parse_entries es acc"
  by simp

lemma parse_step_record:
  assumes "readable e" and "e_value e \<noteq> Inr Null"
  shows "\<exists>r. converts e r \<and> parse_entries (e # es) acc = parse_entries es (acc @ [r])"
proof -
  from assms obtain v where v: "e_value e = Inr v" "v \<noteq> Null"
    by (auto simp: readable_def split: sum.splits)
  with assms(1) obtain d where d: "date e = Inr d" and
    ok: "\<not> isl (e_country e)" "\<not> isl (countryiso3code e)" "\<not> isl (py_int_json d)" "\<not> isl (py_float v)"
    by (auto simp: readable_def split: sum.splits)
  from ok obtain c cc y f where f: "e_country e = Inr c" "countryiso3code e = Inr cc"
    "date e = Inr d" "py_int_json d = Inr y" "py_float v = Inr f"
    using d by (auto dest!: not_isl_Inr)
  let ?r = "\<lparr>country = c, country_code = cc, year = y, val = f\<rparr>"
  have "converts e ?r" using v f by (simp add: converts_def)
  moreover have "parse_entries (e # es) acc = parse_entries es (acc @ [?r])"
    using v f by simp
  ultimately show ?thesis by blast
qed

lemma parse_entries_ok:
  assumes "\<forall>e \<in> set es. readable e"
  shows "\<exists>t. parse_entries es acc = Inr (acc @ t) \<and>
             list_all2 converts (filter (\<lambda>e. e_value e \<noteq> Inr Null) es) t"
  using assms
proof (induction es arbitrary: acc)
  case Nil
  then show ?case by simp
next
  case (Cons e es)
  show ?case
  proof (cases "e_value e = Inr Null")
    case True
    from Cons.IH [of acc] Cons.prems obtain t where
      "parse_entries es acc = Inr (acc @ t)"
      "list_all2 converts (filter (\<lambda>e. e_value e \<noteq> Inr Null) es) t" by auto
    with True show ?thesis by (intro exI [of _ t]) simp
  next
    case False
    from Cons.prems have "readable e" by simp
    from parse_step_record [OF this False, of es acc] obtain r where
      r: "converts e r" "parse_entries (e # es) acc = parse_entries es (acc @ [r])" by blast
    from Cons.IH [of "acc @ [r]"] Cons.prems obtain t where
      t: "parse_entries es (acc @ [r]) = Inr ((acc @ [r]) @ t)"
      "list_all2 converts (filter (\<lambda>e. e_value e \<noteq> Inr Null) es) t" by auto
    from r t False show ?thesis by (intro exI [of _ "r # t"]) simp
  qed
qed

lemma parse_entries_unreadable:
  "\<exists>e \<in> set es. \<not> readable e \<Longrightarrow> \<exists>x. parse_entries es acc = Inl x"
proof (induction es arbitrary: acc)
  case Nil
  then show ?case by simp
next
  case (Cons e es)
  show ?case
  proof (cases "readable e")
    case False
    then show ?thesis by (rule parse_step_unreadable)
  next
    case True
    with Cons.prems have rest: "\<exists>e \<in> set es. \<not> readable e" by auto
    show ?thesis
    proof (cases "e_value e = Inr Null")
      case null: True
      from Cons.IH [OF rest, of acc] show ?thesis
        unfolding parse_step_null [OF null] .
    next
      case False
      from parse_step_record [OF True False, of es acc] obtain r where
        "parse_entries (e # es) acc = parse_entries es (acc @ [r])" by blast
      with Cons.IH [OF rest, of "acc @ [r]"] show ?thesis by simp
    qed
  qed
qed




lemma not_readable_codeless:
  "\<not> readable ((mk_entry c ''2020'' (FloatVal 2))\<lparr>countryiso3code := Inl KeyError\<rparr>)"
  by (simp add: readable_def mk_entry_def)

lemma huge_overflow: "py_float (IntVal (10 ^ 400)) = Inl OverflowError"
  by (simp add: py_float_def)

lemma fetch_huge:
  "fetch_country_indicator huge_provider ''NY.GDP.MKTP.CD'' ''B'' 2000 2023 = Inl OverflowError"
  by (simp add: fetch_country_indicator_def huge_provider_def mk_entry_def py_int_json_def
      py_int_2020 huge_overflow [simplified])

section \<open>Parsing the provider's response\<close>

text \<open>
  Claim C8, as the specification states it: a record whose value field is null or
  absent is dropped. A record that lacks the value key is not dropped: reading
  \<open>entry['value']\<close> raises \<open>KeyError\<close>, and the parse of the whole response fails, the
  record before it included.
\<close>

theorem parse_absent_value_counterexample:
  "fetch_country_indicator keyless_provider ''NY.GDP.MKTP.CD'' ''A'' 2000 2023 = Inl KeyError"
  by (simp add: fetch_country_indicator_def keyless_provider_def mk_entry_def
      py_int_json_def py_float_def py_int_2019)

text \<open>
  Claim C8, amended: for a reply that passes the status check and decodes as JSON, a
  missing or null records array yields zero observations. The parse of a records array
  returns exactly when every entry can be read: its value key is there, and either the
  value is null, or the country name, the country code and the date are there too,
  \<open>int\<close> accepts the date and \<open>float\<close> accepts the value. Then the result holds the
  entries whose value is not null, in order, each converted with the year as that integer
  and the value as that float, and no entry with a null value (nothing is coerced to
  zero). When some entry cannot be read (its value key is absent, a field of a record
  with a value is missing, or a conversion fails) the parse raises and no record is
  returned.
\<close>

theorem parse_drops_null_values:
  assumes "session_get ind code s e = Reply status (Some body)"
    and "\<not> (400 \<le> status \<and> status < 600)"
  shows "(body = Short \<or> body = NullRecords \<longrightarrow>
            fetch_country_indicator session_get ind code s e = Inr []) \<and>
         (\<forall>es. body = Records es \<and> (\<forall>x \<in> set es. readable x) \<longrightarrow>
            (\<exists>t. fetch_country_indicator session_get ind code s e = Inr t \<and>
                 list_all2 converts (filter (\<lambda>x. e_value x \<noteq> Inr Null) es) t)) \<and>
         (\<forall>es. body = Records es \<and> (\<exists>x \<in> set es. \<not> readable x) \<longrightarrow>
            (\<exists>x. fetch_country_indicator session_get ind code s e = Inl x))"
proof (intro conjI allI impI)
  assume "body = Short \<or> body = NullRecords"
  with assms show "fetch_country_indicator session_get ind code s e = Inr []"
    by (auto simp: fetch_country_indicator_def)
next
  fix es
  assume a: "body = Records es \<and> (\<forall>x \<in> set es. readable x)"
  then obtain t where "parse_entries es [] = Inr ([] @ t)"
    "list_all2 converts (filter (\<lambda>x. e_value x \<noteq> Inr Null) es) t"
    using parse_entries_ok [of es "[]"] by blast
  with a assms
  show "\<exists>t. fetch_country_indicator session_get ind code s e = Inr t \<and>
                 list_all2 converts (filter (\<lambda>x. e_value x \<noteq> Inr Null) es) t"
    by (auto simp: fetch_country_indicator_def)
next
  fix es
  assume a: "body = Records es \<and> (\<exists>x \<in> set es. \<not> readable x)"
  then obtain x where "parse_entries es [] = Inl x"
    using parse_entries_unreadable [of es "[]"] by blast
  with a assms show "\<exists>x. fetch_country_indicator session_get ind code s e = Inl x"
    by (auto simp: fetch_country_indicator_def)
qed

theorem parse_drops_null_values_witness:
  "sample_provider ''NY.GDP.MKTP.CD'' ''B'' 2000 2023
     = Reply 200 (Some (Records [mk_entry ''B'' ''2020'' (FloatVal 3), mk_entry ''B'' ''2019'' Null])) \<and>
   \<not> (400 \<le> (200::nat) \<and> (200::nat) < 600) \<and>
   readable (mk_entry ''B'' ''2020'' (FloatVal 3)) \<and> readable (mk_entry ''B'' ''2019'' Null) \<and>
   fetch_country_indicator sample_provider ''NY.GDP.MKTP.CD'' ''B'' 2000 2023 = Inr [mk_obs ''B'' 2020 3] \<and>
   \<not> readable ((mk_entry ''B'' ''2020'' (FloatVal 2))\<lparr>countryiso3code := Inl KeyError\<rparr>) \<and>
   (\<exists>x. fetch_country_indicator codeless_provider ''NY.GDP.MKTP.CD'' ''B'' 2000 2023 = Inl x)"
proof -
  let ?es = "[mk_entry ''B'' ''2020'' (FloatVal 3), mk_entry ''B'' ''2019'' Null]"
  let ?bad = "(mk_entry ''B'' ''2020'' (FloatVal 2))\<lparr>countryiso3code := Inl KeyError\<rparr>"
  let ?cs = "[mk_entry ''B'' ''2019'' (FloatVal 1), ?bad]"
  have h1: "sample_provider ''NY.GDP.MKTP.CD'' ''B'' 2000 2023 = Reply 200 (Some (Records ?es))"
    by (simp add: sample_provider_def)
  have h2: "\<not> (400 \<le> (200::nat) \<and> (200::nat) < 600)" by simp
  have h3: "\<forall>x \<in> set ?es. readable x" by (simp add: readable_mk_entry)
  have f: "filter (\<lambda>x. e_value x \<noteq> Inr Null) ?es = [mk_entry ''B'' ''2020'' (FloatVal 3)]"
    by (simp add: mk_entry_def)
  from parse_drops_null_values [where session_get = sample_provider and body = "Records ?es", OF h1 h2] h3
  have "\<exists>t. fetch_country_indicator sample_provider ''NY.GDP.MKTP.CD'' ''B'' 2000 2023 = Inr t \<and>
        list_all2 converts (filter (\<lambda>x. e_value x \<noteq> Inr Null) ?es) t"
    by blast
  then have good: "fetch_country_indicator sample_provider ''NY.GDP.MKTP.CD'' ''B'' 2000 2023
      = Inr [mk_obs ''B'' 2020 3]"
    unfolding f by (auto simp: list_all2_Cons1 converts_mk_entry)
  have c1: "codeless_provider ''NY.GDP.MKTP.CD'' ''B'' 2000 2023 = Reply 200 (Some (Records ?cs))"
    by (simp add: codeless_provider_def)
  have c3: "\<exists>x \<in> set ?cs. \<not> readable x" by (simp add: not_readable_codeless)
  from parse_drops_null_values [where session_get = codeless_provider and body = "Records ?cs", OF c1 h2] c3
  have bad: "\<exists>x. fetch_country_indicator codeless_provider ''NY.GDP.MKTP.CD'' ''B'' 2000 2023 = Inl x"
    by blast
  from h1 h2 good bad show ?thesis by (simp add: readable_mk_entry not_readable_codeless)
qed

section \<open>Partial failure in fetch\_indicator\<close>



section \<open>Facts about the cache\<close>

lemma obs_of_to_record: "obs_of_record (to_record r) = Some r"
  by (simp add: obs_of_record_def to_record_def)

lemma those_obs_to_record: "those_obs (map to_record t) = Some t"
  by (induction t) (simp_all add: obs_of_to_record)

lemma load_saved:
  assumes "fromisoformat (isoformat t0) = Some t0"
  shows "load_data_cache fromisoformat other filename cache_dir max_age now
           (save_data_cache isoformat data filename cache_dir t0 files)
         = Inr (if (now - t0) / 3600 > real_of_int max_age then None else Some (Table data))"
  using assms
  by (simp add: load_data_cache_def load_body_def save_data_cache_def getitem_def
      DataFrame_def those_obs_to_record Let_def)

section \<open>Reading the cache after a write\<close>

text \<open>
  Claim C6: for every table and cache key, a read after a write under the same key
  returns, while the age of the entry is at most the freshness window, a table whose
  set of (country code, year, value) triples is the set that was stored (here the very
  table, rows in the same order); once the age exceeds the window the read is a miss.
  The standard library's \<open>fromisoformat\<close> is taken to read back what \<open>isoformat\<close> wrote.
\<close>

theorem cache_read_after_write:
  assumes "fromisoformat (isoformat t0) = Some t0"
  shows "((now - t0) / 3600 \<le> real_of_int max_age \<longrightarrow>
            (\<exists>t. load_data_cache fromisoformat other key cache_dir max_age now
                    (save_data_cache isoformat data key cache_dir t0 files) = Inr (Some (Table t))
                 \<and> t = data \<and> triples t = triples data)) \<and>
         ((now - t0) / 3600 > real_of_int max_age \<longrightarrow>
            load_data_cache fromisoformat other key cache_dir max_age now
              (save_data_cache isoformat data key cache_dir t0 files) = Inr None)"
  using load_saved [where fromisoformat = fromisoformat and isoformat = isoformat and ?t0.0 = t0
      and other = other and filename = key and cache_dir = cache_dir and max_age = max_age
      and now = now and data = data and files = files, OF assms]
  by simp

theorem cache_read_after_write_witness:
  "sample_fromisoformat (sample_isoformat 0) = Some 0 \<and>
   load_data_cache sample_fromisoformat sample_other ''GDP_USA_2000_2023'' ''data'' 24 3600
     (save_data_cache sample_isoformat [mk_obs ''USA'' 2000 1] ''GDP_USA_2000_2023'' ''data'' 0 Map.empty)
     = Inr (Some (Table [mk_obs ''USA'' 2000 1])) \<and>
   load_data_cache sample_fromisoformat sample_other ''GDP_USA_2000_2023'' ''data'' 24 90000
     (save_data_cache sample_isoformat [mk_obs ''USA'' 2000 1] ''GDP_USA_2000_2023'' ''data'' 0 Map.empty)
     = Inr None"
proof -
  have h: "sample_fromisoformat (sample_isoformat 0) = Some 0"
    by (simp add: sample_fromisoformat_def sample_isoformat_def)
  note w = cache_read_after_write [where fromisoformat = sample_fromisoformat
      and isoformat = sample_isoformat and ?t0.0 = 0 and other = sample_other
      and key = "''GDP_USA_2000_2023''" and cache_dir = "''data''" and max_age = 24
      and data = "[mk_obs ''USA'' 2000 1]" and files = Map.empty, OF h]
  from w [of 3600] w [of 90000] h show ?thesis by simp
qed

section \<open>Failures while reading the cache\<close>

text \<open>
  Claim C9: a cache read never raises, and every failure while reading the persisted
  entry is a miss: a missing file, a file that cannot be opened, a text that is not
  JSON, a document without a timestamp (or that is no dictionary), a timestamp that is
  not a string or that \<open>fromisoformat\<close> rejects, missing data, and data from which no
  frame can be built.
\<close>

theorem cache_read_failure_is_miss:
  "(\<exists>r. load_data_cache fromisoformat other key cache_dir max_age now files = Inr r) \<and>
   (files (cache_path cache_dir key) = None \<or>
    files (cache_path cache_dir key) = Some NoAccess \<or>
    files (cache_path cache_dir key) = Some Garbage \<longrightarrow>
      load_data_cache fromisoformat other key cache_dir max_age now files = Inr None) \<and>
   (\<forall>j. files (cache_path cache_dir key) = Some (Doc j) \<and>
        ((\<exists>x. getitem j ''timestamp'' = Inl x) \<or>
         (\<exists>v. getitem j ''timestamp'' = Inr v \<and> (\<forall>ts. v \<noteq> JStr ts)) \<or>
         (\<exists>ts. getitem j ''timestamp'' = Inr (JStr ts) \<and> fromisoformat ts = None) \<or>
         (\<exists>x. getitem j ''data'' = Inl x) \<or>
         (\<exists>d x. getitem j ''data'' = Inr d \<and> DataFrame other d = Inl x)) \<longrightarrow>
      load_data_cache fromisoformat other key cache_dir max_age now files = Inr None)"
proof (intro conjI allI impI)
  show "\<exists>r. load_data_cache fromisoformat other key cache_dir max_age now files = Inr r"
    by (simp add: load_data_cache_def Let_def split: sum.splits)
next
  assume "files (cache_path cache_dir key) = None \<or>
    files (cache_path cache_dir key) = Some NoAccess \<or>
    files (cache_path cache_dir key) = Some Garbage"
  then show "load_data_cache fromisoformat other key cache_dir max_age now files = Inr None"
    by (auto simp: load_data_cache_def load_body_def Let_def dom_def)
next
  fix j
  assume a: "files (cache_path cache_dir key) = Some (Doc j) \<and>
        ((\<exists>x. getitem j ''timestamp'' = Inl x) \<or>
         (\<exists>v. getitem j ''timestamp'' = Inr v \<and> (\<forall>ts. v \<noteq> JStr ts)) \<or>
         (\<exists>ts. getitem j ''timestamp'' = Inr (JStr ts) \<and> fromisoformat ts = None) \<or>
         (\<exists>x. getitem j ''data'' = Inl x) \<or>
         (\<exists>d x. getitem j ''data'' = Inr d \<and> DataFrame other d = Inl x))"
  then have d: "cache_path cache_dir key \<in> dom files" by auto
  from a have "\<exists>x. load_body fromisoformat other (cache_path cache_dir key) max_age now files = Inl x
      \<or> load_body fromisoformat other (cache_path cache_dir key) max_age now files = Inr None"
    by (auto simp: load_body_def Let_def split: sum.splits json.splits option.splits)
  with d show "load_data_cache fromisoformat other key cache_dir max_age now files = Inr None"
    by (auto simp: load_data_cache_def Let_def)
qed

theorem cache_read_failure_is_miss_witness:
  "load_data_cache sample_fromisoformat sample_other ''k'' ''data'' 24 0 Map.empty = Inr None \<and>
   load_data_cache sample_fromisoformat sample_other ''k'' ''data'' 24 0 [''data/k.json'' \<mapsto> Garbage] = Inr None \<and>
   load_data_cache sample_fromisoformat sample_other ''k'' ''data'' 24 0
     [''data/k.json'' \<mapsto> Doc (JObj [(''timestamp'', JStr ''yesterday''), (''data'', JArr [])])] = Inr None"
proof -
  have p: "cache_path ''data'' ''k'' = ''data/k.json''"
    by (simp add: cache_path_def path_join_def)
  let ?j = "JObj [(''timestamp'', JStr ''yesterday''), (''data'', JArr [])]"
  have g: "getitem ?j ''timestamp'' = Inr (JStr ''yesterday'') \<and> sample_fromisoformat ''yesterday'' = None"
    by (simp add: getitem_def sample_fromisoformat_def)
  have "load_data_cache sample_fromisoformat sample_other ''k'' ''data'' 24 0 Map.empty = Inr None"
    using cache_read_failure_is_miss [of sample_fromisoformat sample_other "''k''" "''data''" 24 0 Map.empty]
    by simp
  moreover have "load_data_cache sample_fromisoformat sample_other ''k'' ''data'' 24 0 [''data/k.json'' \<mapsto> Garbage] = Inr None"
    using cache_read_failure_is_miss [of sample_fromisoformat sample_other "''k''" "''data''" 24 0 "[''data/k.json'' \<mapsto> Garbage]"] p
    by simp
  moreover have "load_data_cache sample_fromisoformat sample_other ''k'' ''data'' 24 0 [''data/k.json'' \<mapsto> Doc ?j] = Inr None"
    using cache_read_failure_is_miss [of sample_fromisoformat sample_other "''k''" "''data''" 24 0 "[''data/k.json'' \<mapsto> Doc ?j]"] p g
    by auto
  ultimately show ?thesis by simp
qed

section \<open>Facts about the value series of a country\<close>

lemma value_series_vals_gen:
  "map snd (map (\<lambda>(i, r). (i, val r)) (filter (\<lambda>(i, r). country r = c) (enumerate n df)))
     = map val (filter (\<lambda>r. country r = c) df)"
  by (induction df arbitrary: n) auto

lemma value_series_vals: "map snd (value_series df c) = map val (rows_of df c)"
  unfolding value_series_def rows_of_def by (rule value_series_vals_gen)

lemma value_series_empty: "value_series df c = [] \<longleftrightarrow> c \<notin> country ` set df"
proof -
  have "value_series df c = [] \<longleftrightarrow> map snd (value_series df c) = []" by simp
  also have "\<dots> \<longleftrightarrow> rows_of df c = []" by (simp add: value_series_vals)
  also have "\<dots> \<longleftrightarrow> c \<notin> country ` set df"
    by (auto simp: rows_of_def filter_empty_conv)
  finally show ?thesis .
qed

section \<open>Comparing with a country that is not in the table\<close>

text \<open>
  Claim C10: for every table and every pair of country names, if either country has no
  observation in the table, \<open>compare_countries\<close> returns the empty dictionary: it holds
  none of the comparison fields, and nothing is raised.
\<close>

theorem compare_countries_absent_country:
  assumes "c1 \<notin> country ` set df \<or> c2 \<notin> country ` set df"
  shows "compare_countries df c1 c2 = [] \<and> (\<forall>k. map_of (compare_countries df c1 c2) k = None)"
proof -
  from assms have "value_series df c1 = [] \<or> value_series df c2 = []"
    by (simp add: value_series_empty)
  then have "compare_countries df c1 c2 = []"
    by (auto simp: compare_countries_def Let_def)
  then show ?thesis by simp
qed

theorem compare_countries_absent_country_witness:
  "''B'' \<notin> country ` set [mk_obs ''A'' 2020 1] \<and>
   compare_countries [mk_obs ''A'' 2020 1] ''A'' ''B'' = []"
proof -
  have h: "''B'' \<notin> country ` set [mk_obs ''A'' 2020 1]"
    by (simp add: mk_obs_def)
  then have "''A'' \<notin> country ` set [mk_obs ''A'' 2020 1] \<or> ''B'' \<notin> country ` set [mk_obs ''A'' 2020 1]"
    by simp
  from compare_countries_absent_country [OF this] h show ?thesis by blast
qed

section \<open>Facts about sorted lists\<close>

lemma last_of_sorted_is_max:
  "xs \<noteq> [] \<Longrightarrow> sorted (map f xs) \<Longrightarrow> f (last xs) = Max (f ` set xs)"
proof (induction xs)
  case Nil
  then show ?case by simp
next
  case (Cons x xs)
  show ?case
  proof (cases "xs = []")
    case True
    then show ?thesis by simp
  next
    case False
    with Cons have ih: "f (last xs) = Max (f ` set xs)" by simp
    from Cons.prems False have "f x \<le> f (last xs)" by simp
    with ih False show ?thesis by (simp add: max_def)
  qed
qed

lemma hd_of_sorted_is_min:
  "xs \<noteq> [] \<Longrightarrow> sorted (map f xs) \<Longrightarrow> f (hd xs) = Min (f ` set xs)"
proof (induction xs)
  case Nil
  then show ?case by simp
next
  case (Cons x xs)
  show ?case
  proof (cases "xs = []")
    case True
    then show ?thesis by simp
  next
    case False
    from Cons.prems have "\<forall>y \<in> set xs. f x \<le> f y" by simp
    then have "f x \<le> Min (f ` set xs)" using False by simp
    then show ?thesis using False by (simp add: min_def)
  qed
qed

section \<open>Facts about the compound annual growth rate\<close>

lemma set_unique: "set (unique xs) = set xs"
  by (simp add: unique_def)

lemma distinct_unique: "distinct (unique xs)"
  by (simp add: unique_def)

lemma cagr_country_name: "r \<in> set (cagr_country df sy ey c) \<Longrightarrow> c_country r = c"
  by (auto simp: cagr_country_def cagr_of_def Let_def split: if_splits)

lemma cagr_country_cases:
  "cagr_country df sy ey c =
     (if start_data (country_data df c) sy \<noteq> [] \<and> end_data (country_data df c) ey \<noteq> [] \<and>
         year (hd (end_data (country_data df c) ey)) > year (hd (start_data (country_data df c) sy)) \<and>
         val (hd (start_data (country_data df c) sy)) > 0
      then [cagr_of c (hd (start_data (country_data df c) sy)) (hd (end_data (country_data df c) ey))]
      else [])"
  by (auto simp: cagr_country_def Let_def)

lemma country_data_set: "set (country_data df c) = {r \<in> set df. country r = c}"
  by (auto simp: country_data_def rows_of_def)

lemma country_data_empty: "country_data df c = [] \<longleftrightarrow> c \<notin> country ` set df"
proof -
  have "country_data df c = [] \<longleftrightarrow> set (country_data df c) = {}" by simp
  also have "\<dots> \<longleftrightarrow> c \<notin> country ` set df" unfolding country_data_set by auto
  finally show ?thesis .
qed

lemma cagr_sample_neg: "calculate_cagr [mk_obs ''B'' 2000 (-5), mk_obs ''B'' 2010 3] None None = []"
  by (simp add: calculate_cagr_def unique_def cagr_country_def country_data_def rows_of_def
      start_data_def end_data_def truthy_def cagr_of_def root_pow_def mk_obs_def Let_def)

lemma tenth_root_cancel: "0 < a \<Longrightarrow> ((a::real) ^ 10) powr (1 / 10) = a"
  using root_powr_inverse [of 10 "a ^ 10"] real_root_power_cancel [of 10 a] by simp

lemma tenth_root_two_bounds: "1.07176 < (2::real) powr (1 / 10) \<and> (2::real) powr (1 / 10) < 1.07178"
proof -
  have lo: "(1.07176::real) ^ 10 < 2" by (simp add: power_numeral_reduce)
  have hi: "(2::real) < 1.07178 ^ 10" by (simp add: power_numeral_reduce)
  have "((1.07176::real) ^ 10) powr (1 / 10) < 2 powr (1 / 10)"
    using lo by (intro powr_less_mono2) simp_all
  moreover have "(2::real) powr (1 / 10) < ((1.07178::real) ^ 10) powr (1 / 10)"
    using hi by (intro powr_less_mono2) simp_all
  ultimately show ?thesis
    using tenth_root_cancel [of "1.07176"] tenth_root_cancel [of "1.07178"] by simp
qed

lemma cagr_sample_close: "\<bar>((2::real) powr (1 / 10) - 1) * 100 - 7.177\<bar> < 0.001"
proof -
  have "\<bar>(y - 1) * 100 - 7.177\<bar> < 0.001" if "1.07176 < y" "y < 1.07178" for y :: real
    using that by (simp add: abs_less_iff) argo
  then show ?thesis using tenth_root_two_bounds by blast
qed

lemma filter_concat_named:
  assumes "distinct cs" and "\<And>c' r. r \<in> set (f c') \<Longrightarrow> name r = c'"
  shows "filter (\<lambda>r. name r = c) (concat (map f cs)) = (if c \<in> set cs then f c else [])"
  using assms(1)
proof (induction cs)
  case Nil
  then show ?case by simp
next
  case (Cons a cs)
  have same: "filter (\<lambda>r. name r = c) (f c) = f c"
    using assms(2) by (simp add: filter_id_conv)
  have other: "filter (\<lambda>r. name r = c) (f a) = []" if "a \<noteq> c"
    using assms(2) that by (auto simp: filter_empty_conv)
  from Cons show ?case
    by (cases "a = c") (auto simp: same other)
qed

lemma calculate_cagr_filter:
  "filter (\<lambda>r. c_country r = c) (calculate_cagr df sy ey)
     = (if c \<in> country ` set df then cagr_country df sy ey c else [])"
proof -
  have "filter (\<lambda>r. c_country r = c) (concat (map (cagr_country df sy ey) (unique (map country df))))
      = (if c \<in> set (unique (map country df)) then cagr_country df sy ey c else [])"
    by (rule filter_concat_named) (simp_all add: distinct_unique cagr_country_name)
  then show ?thesis by (simp add: calculate_cagr_def set_unique)
qed

lemma cagr_country_absent: "c \<notin> country ` set df \<Longrightarrow> cagr_country df sy ey c = []"
proof -
  assume "c \<notin> country ` set df"
  then have "country_data df c = []" by (simp add: country_data_empty)
  then show ?thesis by (simp add: cagr_country_def start_data_def Let_def)
qed

lemma calculate_cagr_filter':
  "filter (\<lambda>r. c_country r = c) (calculate_cagr df sy ey) = cagr_country df sy ey c"
  by (simp add: calculate_cagr_filter cagr_country_absent)

lemma country_data_sorted: "sorted (map year (country_data df c))"
  by (simp add: country_data_def)

lemma country_data_set_rows: "set (country_data df c) = set (rows_of df c)"
  by (simp add: country_data_def)

lemma country_data_Nil: "country_data df c = [] \<longleftrightarrow> rows_of df c = []"
  by (metis country_data_set_rows set_empty)

lemma Min_year_attained:
  "rows \<noteq> [] \<Longrightarrow> \<exists>s \<in> set rows. year s = Min (year ` set rows)"
proof -
  assume "rows \<noteq> []"
  then have "Min (year ` set rows) \<in> year ` set rows" by (intro Min_in) simp_all
  then show ?thesis by auto
qed

lemma Max_year_attained:
  "rows \<noteq> [] \<Longrightarrow> \<exists>s \<in> set rows. year s = Max (year ` set rows)"
proof -
  assume "rows \<noteq> []"
  then have "Max (year ` set rows) \<in> year ` set rows" by (intro Max_in) simp_all
  then show ?thesis by auto
qed

lemma start_data_row:
  fixes df :: table and c :: string and sy :: "int option"
  defines "ys \<equiv> (case sy of None \<Rightarrow> Min (year ` set (rows_of df c))
                   | Some y \<Rightarrow> if y = 0 then Min (year ` set (rows_of df c)) else y)"
  shows "(start_data (country_data df c) sy \<noteq> [] \<longleftrightarrow> (\<exists>s \<in> set (rows_of df c). year s = ys)) \<and>
         (start_data (country_data df c) sy \<noteq> [] \<longrightarrow>
            hd (start_data (country_data df c) sy) \<in> set (rows_of df c) \<and>
            year (hd (start_data (country_data df c) sy)) = ys)"
proof (cases "truthy sy")
  case True
  then obtain y where y: "sy = Some y" "y \<noteq> 0" by (auto simp: truthy_def split: option.splits)
  then have ys: "ys = y" by (simp add: ys_def)
  have sd: "start_data (country_data df c) sy = filter (\<lambda>r. year r = y) (country_data df c)"
    using True y by (simp add: start_data_def)
  have ne: "start_data (country_data df c) sy \<noteq> [] \<longleftrightarrow> (\<exists>s \<in> set (rows_of df c). year s = y)"
    unfolding sd by (auto simp: filter_empty_conv country_data_set_rows)
  have "hd (start_data (country_data df c) sy) \<in> set (start_data (country_data df c) sy)"
    if "start_data (country_data df c) sy \<noteq> []" using that by simp
  then have "hd (start_data (country_data df c) sy) \<in> set (rows_of df c) \<and>
      year (hd (start_data (country_data df c) sy)) = y"
    if "start_data (country_data df c) sy \<noteq> []"
    using that unfolding sd by (auto simp: country_data_set_rows)
  with ne ys show ?thesis by simp
next
  case False
  then have ys: "ys = Min (year ` set (rows_of df c))"
    by (auto simp: ys_def truthy_def split: option.splits)
  have sd: "start_data (country_data df c) sy = take 1 (country_data df c)"
    using False by (simp add: start_data_def)
  have ne: "start_data (country_data df c) sy \<noteq> [] \<longleftrightarrow> rows_of df c \<noteq> []"
    unfolding sd by (simp add: country_data_Nil)
  have ex: "rows_of df c \<noteq> [] \<longleftrightarrow> (\<exists>s \<in> set (rows_of df c). year s = ys)"
    unfolding ys using Min_year_attained [of "rows_of df c"] by auto
  have hd: "hd (start_data (country_data df c) sy) = hd (country_data df c)"
    unfolding sd by (cases "country_data df c") simp_all
  have "hd (country_data df c) \<in> set (rows_of df c) \<and> year (hd (country_data df c)) = ys"
    if "rows_of df c \<noteq> []"
  proof -
    from that have n: "country_data df c \<noteq> []" by (simp add: country_data_Nil)
    then have "hd (country_data df c) \<in> set (country_data df c)" by simp
    moreover have "year (hd (country_data df c)) = Min (year ` set (country_data df c))"
      using n country_data_sorted by (rule hd_of_sorted_is_min)
    ultimately show ?thesis by (simp add: country_data_set_rows ys)
  qed
  with ne ex hd show ?thesis by simp
qed


lemma end_data_row:
  fixes df :: table and c :: string and ey :: "int option"
  defines "ye \<equiv> (case ey of None \<Rightarrow> Max (year ` set (rows_of df c))
                   | Some y \<Rightarrow> if y = 0 then Max (year ` set (rows_of df c)) else y)"
  shows "(end_data (country_data df c) ey \<noteq> [] \<longleftrightarrow> (\<exists>s \<in> set (rows_of df c). year s = ye)) \<and>
         (end_data (country_data df c) ey \<noteq> [] \<longrightarrow>
            hd (end_data (country_data df c) ey) \<in> set (rows_of df c) \<and>
            year (hd (end_data (country_data df c) ey)) = ye)"
proof (cases "truthy ey")
  case True
  then obtain y where y: "ey = Some y" "y \<noteq> 0" by (auto simp: truthy_def split: option.splits)
  then have ye: "ye = y" by (simp add: ye_def)
  have ed: "end_data (country_data df c) ey = filter (\<lambda>r. year r = y) (country_data df c)"
    using True y by (simp add: end_data_def)
  have ne: "end_data (country_data df c) ey \<noteq> [] \<longleftrightarrow> (\<exists>s \<in> set (rows_of df c). year s = y)"
    unfolding ed by (auto simp: filter_empty_conv country_data_set_rows)
  have "hd (end_data (country_data df c) ey) \<in> set (end_data (country_data df c) ey)"
    if "end_data (country_data df c) ey \<noteq> []" using that by simp
  then have "hd (end_data (country_data df c) ey) \<in> set (rows_of df c) \<and>
      year (hd (end_data (country_data df c) ey)) = y"
    if "end_data (country_data df c) ey \<noteq> []"
    using that unfolding ed by (auto simp: country_data_set_rows)
  with ne ye show ?thesis by simp
next
  case False
  then have ye: "ye = Max (year ` set (rows_of df c))"
    by (auto simp: ye_def truthy_def split: option.splits)
  have ed: "end_data (country_data df c) ey
      = drop (length (country_data df c) - 1) (country_data df c)"
    using False by (simp add: end_data_def)
  have ne: "end_data (country_data df c) ey \<noteq> [] \<longleftrightarrow> rows_of df c \<noteq> []"
    unfolding ed country_data_Nil [symmetric] by (cases "country_data df c") simp_all
  have ex: "rows_of df c \<noteq> [] \<longleftrightarrow> (\<exists>s \<in> set (rows_of df c). year s = ye)"
    unfolding ye using Max_year_attained [of "rows_of df c"] by auto
  have hd: "hd (end_data (country_data df c) ey) = last (country_data df c)"
    if "country_data df c \<noteq> []"
  proof -
    from that have "country_data df c = butlast (country_data df c) @ [last (country_data df c)]"
      by simp
    then have "drop (length (country_data df c) - 1) (country_data df c) = [last (country_data df c)]"
      by (metis append_eq_conv_conj length_butlast)
    then show ?thesis unfolding ed by simp
  qed
  have "hd (end_data (country_data df c) ey) \<in> set (rows_of df c) \<and>
      year (hd (end_data (country_data df c) ey)) = ye"
    if "rows_of df c \<noteq> []"
  proof -
    from that have n: "country_data df c \<noteq> []" by (simp add: country_data_Nil)
    then have "last (country_data df c) \<in> set (country_data df c)" by simp
    moreover have "year (last (country_data df c)) = Max (year ` set (country_data df c))"
      using n country_data_sorted by (rule last_of_sorted_is_max)
    ultimately show ?thesis unfolding hd [OF n] by (simp add: country_data_set_rows ye)
  qed
  with ne ex show ?thesis by simp
qed

lemma cagr_of_explicit:
  assumes "0 < val s"
  shows "cagr_of c s e =
     \<lparr>c_country = c, start_year = year s, end_year = year e,
      start_value = val s, end_value = val e,
      cagr = (if 0 \<le> val e
              then Fl (((val e / val s) powr (1 / real_of_int (year e - year s)) - 1) * 100)
              else if year e - year s = 1 then Fl ((val e / val s - 1) * 100) else NaN)\<rparr>"
proof (cases "0 \<le> val e")
  case True
  with assms have "0 \<le> val e / val s" by simp
  with True show ?thesis by (simp add: cagr_of_def root_pow_def)
next
  case False
  with assms have "\<not> 0 \<le> val e / val s" by (simp add: divide_less_0_iff not_le)
  with False show ?thesis by (simp add: cagr_of_def root_pow_def)
qed

lemma cagr_sample_unsorted: "calculate_cagr [mk_obs ''A'' 2010 200, mk_obs ''A'' 2000 100] None None
   = [\<lparr>c_country = ''A'', start_year = 2000, end_year = 2010, start_value = 100, end_value = 200,
       cagr = Fl ((2 powr (1 / 10) - 1) * 100)\<rparr>]"
  by (simp add: calculate_cagr_def unique_def cagr_country_def country_data_def rows_of_def
      start_data_def end_data_def truthy_def cagr_of_def root_pow_def mk_obs_def Let_def)

lemma cagr_sample_years:
  "map (\<lambda>r. (start_year r, start_value r, end_year r, end_value r))
     (calculate_cagr [mk_obs ''A'' 2010 200, mk_obs ''A'' 1990 50, mk_obs ''A'' 2000 100, mk_obs ''A'' 2020 400]
        (Some 2000) (Some 2010)) = [(2000, 100, 2010, 200)]"
  by (simp add: calculate_cagr_def unique_def cagr_country_def country_data_def rows_of_def
      start_data_def end_data_def truthy_def cagr_of_def root_pow_def mk_obs_def Let_def)

lemma cagr_sample_missing_year:
  "calculate_cagr [mk_obs ''A'' 2000 100, mk_obs ''A'' 2010 200] (Some 1990) None = []"
  by (simp add: calculate_cagr_def unique_def cagr_country_def country_data_def rows_of_def
      start_data_def end_data_def truthy_def cagr_of_def root_pow_def mk_obs_def Let_def)

section \<open>The records of calculate\_cagr\<close>

text \<open>
  Claim C5: \<open>calculate_cagr\<close> returns (it has no failing branch), and what it returns for
  a country \<open>c\<close> is fixed by the rows of \<open>c\<close> in the table, in any order. The start year
  is the requested one, or the earliest year of \<open>c\<close> when none is requested (\<open>None\<close> or
  \<open>0\<close>); the end year is the requested one, or the latest year of \<open>c\<close>. A record of \<open>c\<close>
  comes from a row of \<open>c\<close> at the start year and a row of \<open>c\<close> at the end year, with the end
  year greater than the start year and a positive start value; it is the only record
  of \<open>c\<close>, and it carries these years and values and
  \<open>cagr = ((end_value / start_value) ** (1 / (end_year - start_year)) - 1) * 100\<close>: a real
  power when the end value is not negative, not a number for a negative end value over
  more than one year. Conversely a record is produced when both rows exist, the end year
  is greater and every row of \<open>c\<close> at the start year has a positive value. So for a table
  with one row for a country and a year, a record exists if and only if the start and
  end observations exist, \<open>end_year > start_year\<close> and \<open>start_value > 0\<close>; any other country
  is left out without an error. A start of 100 in 2000 and an end of 200 in 2010, rows in
  either order, give a rate within 0.001 of 7.177; requested years pick their rows out of
  an unsorted table; a start value of -5, or a requested start year the country does not
  have, gives no record.
\<close>

theorem calculate_cagr_records:
  fixes df :: table and c :: string and sy ey :: "int option"
  defines "rows \<equiv> filter (\<lambda>r. country r = c) df"
  defines "ys \<equiv> (case sy of None \<Rightarrow> Min (year ` set rows)
                   | Some y \<Rightarrow> if y = 0 then Min (year ` set rows) else y)"
    and "ye \<equiv> (case ey of None \<Rightarrow> Max (year ` set rows)
                   | Some y \<Rightarrow> if y = 0 then Max (year ` set rows) else y)"
  shows
  "((\<exists>r \<in> set (calculate_cagr df sy ey). c_country r = c) \<longrightarrow>
      (\<exists>s \<in> set rows. \<exists>e \<in> set rows. year s = ys \<and> year e = ye \<and> ys < ye \<and> 0 < val s \<and>
         filter (\<lambda>r. c_country r = c) (calculate_cagr df sy ey) =
           [\<lparr>c_country = c, start_year = ys, end_year = ye, start_value = val s, end_value = val e,
             cagr = (if 0 \<le> val e
                     then Fl (((val e / val s) powr (1 / real_of_int (ye - ys)) - 1) * 100)
                     else if ye - ys = 1 then Fl ((val e / val s - 1) * 100) else NaN)\<rparr>])) \<and>
   ((\<exists>s \<in> set rows. year s = ys) \<and> (\<exists>e \<in> set rows. year e = ye) \<and> ys < ye \<and>
    (\<forall>s \<in> set rows. year s = ys \<longrightarrow> 0 < val s) \<longrightarrow>
      (\<exists>r \<in> set (calculate_cagr df sy ey). c_country r = c)) \<and>
   (distinct (map year rows) \<longrightarrow>
      ((\<exists>r \<in> set (calculate_cagr df sy ey). c_country r = c) \<longleftrightarrow>
         (\<exists>s \<in> set rows. year s = ys \<and> 0 < val s) \<and> (\<exists>e \<in> set rows. year e = ye) \<and> ys < ye)) \<and>
   (\<exists>x. map cagr (calculate_cagr [mk_obs ''A'' 2010 200, mk_obs ''A'' 2000 100] None None) = [Fl x]
        \<and> \<bar>x - 7.177\<bar> < 0.001) \<and>
   map (\<lambda>r. (start_year r, start_value r, end_year r, end_value r))
     (calculate_cagr [mk_obs ''A'' 2010 200, mk_obs ''A'' 1990 50, mk_obs ''A'' 2000 100, mk_obs ''A'' 2020 400]
        (Some 2000) (Some 2010)) = [(2000, 100, 2010, 200)] \<and>
   calculate_cagr [mk_obs ''B'' 2000 (-5), mk_obs ''B'' 2010 3] None None = [] \<and>
   calculate_cagr [mk_obs ''A'' 2000 100, mk_obs ''A'' 2010 200] (Some 1990) None = []"
proof -
  let ?out = "calculate_cagr df sy ey"
  let ?sd = "start_data (country_data df c) sy"
  let ?ed = "end_data (country_data df c) ey"
  let ?has = "\<exists>r \<in> set ?out. c_country r = c"
  let ?ok = "?sd \<noteq> [] \<and> ?ed \<noteq> [] \<and> year (hd ?ed) > year (hd ?sd) \<and> val (hd ?sd) > 0"
  have rows: "rows = rows_of df c" by (simp add: rows_def rows_of_def)
  have s1: "?sd \<noteq> [] \<longleftrightarrow> (\<exists>s \<in> set rows. year s = ys)"
    and s2: "?sd \<noteq> [] \<Longrightarrow> hd ?sd \<in> set rows \<and> year (hd ?sd) = ys"
    using start_data_row [of df c sy] unfolding ys_def rows by blast+
  have e1: "?ed \<noteq> [] \<longleftrightarrow> (\<exists>e \<in> set rows. year e = ye)"
    and e2: "?ed \<noteq> [] \<Longrightarrow> hd ?ed \<in> set rows \<and> year (hd ?ed) = ye"
    using end_data_row [of df c ey] unfolding ye_def rows by blast+
  have f: "filter (\<lambda>r. c_country r = c) ?out = (if ?ok then [cagr_of c (hd ?sd) (hd ?ed)] else [])"
    unfolding calculate_cagr_filter' by (rule cagr_country_cases)
  have has: "?has \<longleftrightarrow> ?ok"
  proof -
    have "?has \<longleftrightarrow> filter (\<lambda>r. c_country r = c) ?out \<noteq> []"
      by (auto simp: filter_empty_conv)
    then show ?thesis unfolding f by simp
  qed
  have A: "\<exists>s \<in> set rows. \<exists>e \<in> set rows. year s = ys \<and> year e = ye \<and> ys < ye \<and> 0 < val s \<and>
         filter (\<lambda>r. c_country r = c) ?out =
           [\<lparr>c_country = c, start_year = ys, end_year = ye, start_value = val s, end_value = val e,
             cagr = (if 0 \<le> val e
                     then Fl (((val e / val s) powr (1 / real_of_int (ye - ys)) - 1) * 100)
                     else if ye - ys = 1 then Fl ((val e / val s - 1) * 100) else NaN)\<rparr>]"
    if "?has"
  proof -
    from that have ok: "?ok" by (simp add: has)
    then have s: "hd ?sd \<in> set rows" "year (hd ?sd) = ys" and e: "hd ?ed \<in> set rows" "year (hd ?ed) = ye"
      using s2 e2 by simp_all
    from ok have pos: "0 < val (hd ?sd)" and lt: "ys < ye" using s(2) e(2) by simp_all
    have "filter (\<lambda>r. c_country r = c) ?out = [cagr_of c (hd ?sd) (hd ?ed)]"
      using f ok by simp
    also note cagr_of_explicit [OF pos, of c "hd ?ed"]
    finally have "filter (\<lambda>r. c_country r = c) ?out =
           [\<lparr>c_country = c, start_year = ys, end_year = ye, start_value = val (hd ?sd),
             end_value = val (hd ?ed),
             cagr = (if 0 \<le> val (hd ?ed)
                     then Fl (((val (hd ?ed) / val (hd ?sd)) powr (1 / real_of_int (ye - ys)) - 1) * 100)
                     else if ye - ys = 1 then Fl ((val (hd ?ed) / val (hd ?sd) - 1) * 100) else NaN)\<rparr>]"
      unfolding s(2) e(2) .
    with s e pos lt show ?thesis by blast
  qed
  have B: "?has"
    if "(\<exists>s \<in> set rows. year s = ys) \<and> (\<exists>e \<in> set rows. year e = ye) \<and> ys < ye \<and>
        (\<forall>s \<in> set rows. year s = ys \<longrightarrow> 0 < val s)"
  proof -
    from that have sd: "?sd \<noteq> []" and ed: "?ed \<noteq> []" using s1 e1 by simp_all
    from s2 [OF sd] e2 [OF ed] that have "year (hd ?ed) > year (hd ?sd)" "val (hd ?sd) > 0"
      by auto
    with sd ed show ?thesis by (simp add: has)
  qed
  have C: "?has \<longleftrightarrow>
         (\<exists>s \<in> set rows. year s = ys \<and> 0 < val s) \<and> (\<exists>e \<in> set rows. year e = ye) \<and> ys < ye"
    if d: "distinct (map year rows)"
  proof
    assume "?has"
    from A [OF this] show "(\<exists>s \<in> set rows. year s = ys \<and> 0 < val s) \<and>
        (\<exists>e \<in> set rows. year e = ye) \<and> ys < ye" by blast
  next
    assume r: "(\<exists>s \<in> set rows. year s = ys \<and> 0 < val s) \<and> (\<exists>e \<in> set rows. year e = ye) \<and> ys < ye"
    then obtain s where s: "s \<in> set rows" "year s = ys" "0 < val s" by blast
    from d have "inj_on year (set rows)" by (simp add: distinct_map)
    then have "\<forall>s' \<in> set rows. year s' = ys \<longrightarrow> 0 < val s'"
      using s by (auto dest: inj_onD)
    with r s show "?has" by (intro B) blast
  qed
  have ex: "\<exists>x. map cagr (calculate_cagr [mk_obs ''A'' 2010 200, mk_obs ''A'' 2000 100] None None) = [Fl x]
        \<and> \<bar>x - 7.177\<bar> < 0.001"
    using cagr_sample_close by (simp add: cagr_sample_unsorted)
  from A B C ex cagr_sample_years cagr_sample_neg cagr_sample_missing_year
  show ?thesis by blast
qed

theorem calculate_cagr_records_witness:
  "(\<exists>r \<in> set (calculate_cagr [mk_obs ''A'' 2010 200, mk_obs ''A'' 2000 100] None None). c_country r = ''A'') \<and>
   (\<exists>r \<in> set (calculate_cagr [mk_obs ''A'' 2010 200, mk_obs ''A'' 1990 50, mk_obs ''A'' 2000 100,
                               mk_obs ''A'' 2020 400] (Some 2000) (Some 2010)). c_country r = ''A'') \<and>
   \<not> (\<exists>r \<in> set (calculate_cagr [mk_obs ''A'' 2000 100, mk_obs ''A'' 2010 200] (Some 1990) None).
         c_country r = ''A'')"
proof -
  let ?d1 = "[mk_obs ''A'' 2010 200, mk_obs ''A'' 2000 100]"
  let ?d2 = "[mk_obs ''A'' 2010 200, mk_obs ''A'' 1990 50, mk_obs ''A'' 2000 100, mk_obs ''A'' 2020 400]"
  let ?d3 = "[mk_obs ''A'' 2000 100, mk_obs ''A'' 2010 200]"
  have r1: "filter (\<lambda>r. country r = ''A'') ?d1 = ?d1" by (simp add: mk_obs_def)
  have r2: "filter (\<lambda>r. country r = ''A'') ?d2 = ?d2" by (simp add: mk_obs_def)
  have r3: "filter (\<lambda>r. country r = ''A'') ?d3 = ?d3" by (simp add: mk_obs_def)
  have m1: "Min (year ` set ?d1) = 2000" "Max (year ` set ?d1) = 2010" by (simp_all add: mk_obs_def)
  have w1: "\<exists>r \<in> set (calculate_cagr ?d1 None None). c_country r = ''A''"
    using calculate_cagr_records [where df = ?d1 and c = "''A''" and sy = None and ey = None]
    unfolding r1 option.case m1 by (simp add: mk_obs_def)
  have w2: "\<exists>r \<in> set (calculate_cagr ?d2 (Some 2000) (Some 2010)). c_country r = ''A''"
    using calculate_cagr_records [where df = ?d2 and c = "''A''" and sy = "Some 2000" and ey = "Some 2010"]
    unfolding r2 by (simp add: mk_obs_def)
  have w3: "\<not> (\<exists>r \<in> set (calculate_cagr ?d3 (Some 1990) None). c_country r = ''A'')"
    using calculate_cagr_records [where df = ?d3 and c = "''A''" and sy = "Some 1990" and ey = None]
    unfolding r3 by (auto simp: mk_obs_def)
  from w1 w2 w3 show ?thesis by blast
qed

section \<open>Facts about the growth rate\<close>

lemma sorted_fst_of_pairs:
  "sorted (map (\<lambda>r. (a r, b r)) xs) \<Longrightarrow> sorted (map a xs)"
  by (induction xs) (auto simp: less_eq_prod_def)

lemma sorted_by_country: "sorted (map country (sort_key (\<lambda>r. (country r, year r)) df))"
  by (rule sorted_fst_of_pairs [where b = year]) (rule sorted_sort_key)

lemma length_pct_change: "length (pct_change prev xs) = length xs"
  by (induction xs arbitrary: prev) simp_all

lemma pct_change_sorted:
  assumes "sorted (map country (l # xs))" and "seen prev l" and "i < length xs"
  shows "pct_change prev xs ! i =
           (if country ((l # xs) ! i) \<noteq> country (xs ! i) then NaN
            else fsub (fdiv (val (xs ! i)) (val ((l # xs) ! i))) 1)"
  using assms
proof (induction xs arbitrary: prev l i)
  case Nil
  then show ?case by simp
next
  case (Cons r rs)
  from Cons.prems(1) have le: "country l \<le> country r" and srt: "sorted (map country (r # rs))"
    by simp_all
  have hd: "(case prev (country r) of None \<Rightarrow> NaN | Some p \<Rightarrow> fsub (fdiv (val r) p) 1)
      = (if country l \<noteq> country r then NaN else fsub (fdiv (val r) (val l)) 1)"
  proof (cases "country l = country r")
    case True
    with Cons.prems(2) show ?thesis by (simp add: seen_def)
  next
    case False
    with le have "country l < country r" by simp
    with Cons.prems(2) have "prev (country r) = None" by (simp add: seen_def)
    with False show ?thesis by simp
  qed
  have seen': "seen (prev(country r \<mapsto> val r)) r"
    using Cons.prems(2) le by (auto simp: seen_def)
  show ?case
  proof (cases i)
    case 0
    then show ?thesis using hd by simp
  next
    case (Suc j)
    with Cons.prems(3) have "j < length rs" by simp
    have ih: "pct_change (prev(country r \<mapsto> val r)) rs ! j =
           (if country ((r # rs) ! j) \<noteq> country (rs ! j) then NaN
            else fsub (fdiv (val (rs ! j)) (val ((r # rs) ! j))) 1)"
      by (rule Cons.IH [OF srt seen' \<open>j < length rs\<close>])
    have "pct_change prev (r # rs) ! i = pct_change (prev(country r \<mapsto> val r)) rs ! j"
      using Suc by simp
    also note ih
    also have "(if country ((r # rs) ! j) \<noteq> country (rs ! j) then NaN
            else fsub (fdiv (val (rs ! j)) (val ((r # rs) ! j))) 1)
        = (if country ((l # r # rs) ! i) \<noteq> country ((r # rs) ! i) then NaN
            else fsub (fdiv (val ((r # rs) ! i)) (val ((l # r # rs) ! i))) 1)"
      using Suc by simp
    finally show ?thesis .
  qed
qed

lemma pct_change_from_start:
  assumes "sorted (map country xs)" and "i < length xs"
  shows "pct_change Map.empty xs ! i =
           (if i = 0 \<or> country (xs ! (i - 1)) \<noteq> country (xs ! i) then NaN
            else fsub (fdiv (val (xs ! i)) (val (xs ! (i - 1)))) 1)"
proof (cases xs)
  case Nil
  with assms show ?thesis by simp
next
  case (Cons r rs)
  show ?thesis
  proof (cases i)
    case 0
    with Cons show ?thesis by simp
  next
    case (Suc j)
    with assms Cons have j: "j < length rs" by simp
    have s: "seen (Map.empty(country r \<mapsto> val r)) r" by (simp add: seen_def)
    from assms(1) Cons have "sorted (map country (r # rs))" by simp
    then have "pct_change (Map.empty(country r \<mapsto> val r)) rs ! j =
           (if country ((r # rs) ! j) \<noteq> country (rs ! j) then NaN
            else fsub (fdiv (val (rs ! j)) (val ((r # rs) ! j))) 1)"
      using s j by (rule pct_change_sorted)
    moreover have "pct_change Map.empty xs ! i = pct_change (Map.empty(country r \<mapsto> val r)) rs ! j"
      using Cons Suc by simp
    ultimately show ?thesis using Cons Suc by simp
  qed
qed

lemma growth_rows: "map row (calculate_growth_rate df) = sort_key (\<lambda>r. (country r, year r)) df"
proof -
  let ?s = "sort_key (\<lambda>r. (country r, year r)) df"
  have "map row (calculate_growth_rate df) = map fst (zip ?s (pct_change Map.empty ?s))"
    by (simp add: calculate_growth_rate_def Let_def case_prod_unfold o_def)
  also have "\<dots> = ?s"
    by (rule map_fst_zip) (simp add: length_pct_change)
  finally show ?thesis .
qed

lemma growth_rates:
  "map growth_rate (calculate_growth_rate df)
     = map (\<lambda>g. fscale g 100) (pct_change Map.empty (sort_key (\<lambda>r. (country r, year r)) df))"
proof -
  let ?s = "sort_key (\<lambda>r. (country r, year r)) df"
  have "map growth_rate (calculate_growth_rate df)
      = map (\<lambda>g. fscale g 100) (map snd (zip ?s (pct_change Map.empty ?s)))"
    by (simp add: calculate_growth_rate_def Let_def case_prod_unfold o_def)
  also have "map snd (zip ?s (pct_change Map.empty ?s)) = pct_change Map.empty ?s"
    by (rule map_snd_zip) (simp add: length_pct_change)
  finally show ?thesis .
qed

lemma growth_sample:
  "map (\<lambda>g. (year (row g), growth_rate g))
       (calculate_growth_rate [mk_obs ''A'' 2018 100, mk_obs ''A'' 2019 110, mk_obs ''A'' 2020 99])
     = [(2018, NaN), (2019, Fl 10), (2020, Fl (- 10))]"
  by code_simp

lemma growth_sample_zero:
  "map (\<lambda>g. (year (row g), growth_rate g))
       (calculate_growth_rate [mk_obs ''A'' 2018 0, mk_obs ''A'' 2019 5])
     = [(2018, NaN), (2019, PosInf)]"
  by code_simp

lemma pct_finite: "p \<noteq> 0 \<Longrightarrow> fscale (fsub (fdiv v p) 1) 100 = Fl ((v - p) / p * 100)"
  by (simp add: fdiv_def diff_divide_distrib)

lemma growth_sample_length:
  "length (calculate_growth_rate [mk_obs ''A'' 2018 100, mk_obs ''A'' 2019 110, mk_obs ''A'' 2020 99]) = 3"
  by code_simp

section \<open>The rows of calculate\_growth\_rate\<close>

text \<open>
  Claim C3, as the specification states it: the record of each country's first year is
  dropped, a record whose previous value is zero is dropped, and the values 100, 110, 99
  for 2018, 2019, 2020 yield exactly the two records (2019, +10) and (2020, -10). The
  function returns the frame with the column added: three records for the three rows,
  the first with a growth rate that is not a number; and a record whose previous value
  is zero stays, with an infinite rate.
\<close>

theorem growth_first_year_kept_counterexample:
  "length (calculate_growth_rate [mk_obs ''A'' 2018 100, mk_obs ''A'' 2019 110, mk_obs ''A'' 2020 99]) = 3 \<and>
   map (\<lambda>g. (year (row g), growth_rate g))
       (calculate_growth_rate [mk_obs ''A'' 2018 100, mk_obs ''A'' 2019 110, mk_obs ''A'' 2020 99])
     \<noteq> [(2019, Fl 10), (2020, Fl (- 10))] \<and>
   map (\<lambda>g. (year (row g), growth_rate g))
       (calculate_growth_rate [mk_obs ''A'' 2018 0, mk_obs ''A'' 2019 5])
     = [(2018, NaN), (2019, PosInf)]"
  using growth_sample_length growth_sample growth_sample_zero by simp

text \<open>
  Claim C3, amended: the output holds one record for every row of the input, sorted by
  country and year. The record of a country's first row carries a growth rate that is
  not a number; every later record carries the rate computed from the previous row of
  the same country, \<open>(value[t] - value[t-1]) / value[t-1] * 100\<close> when the previous value
  is not zero, and an infinite or undefined rate, with no fault raised, when it is zero.
  The values 100, 110, 99 for 2018, 2019, 2020 yield (2018, not a number), (2019, +10),
  (2020, -10).
\<close>

theorem growth_rate_keeps_every_row:
  fixes df :: table
  defines "out \<equiv> calculate_growth_rate df"
  shows "map row out = sort_key (\<lambda>r. (country r, year r)) df \<and>
    (\<forall>i < length out. growth_rate (out ! i) =
       (if i = 0 \<or> country (row (out ! (i - 1))) \<noteq> country (row (out ! i)) then NaN
        else fscale (fsub (fdiv (val (row (out ! i))) (val (row (out ! (i - 1))))) 1) 100)) \<and>
    (\<forall>i < length out. 0 < i \<and> country (row (out ! (i - 1))) = country (row (out ! i)) \<and>
         val (row (out ! (i - 1))) \<noteq> 0 \<longrightarrow>
       growth_rate (out ! i)
         = Fl ((val (row (out ! i)) - val (row (out ! (i - 1)))) / val (row (out ! (i - 1))) * 100)) \<and>
    map (\<lambda>g. (year (row g), growth_rate g))
       (calculate_growth_rate [mk_obs ''A'' 2018 100, mk_obs ''A'' 2019 110, mk_obs ''A'' 2020 99])
     = [(2018, NaN), (2019, Fl 10), (2020, Fl (- 10))] \<and>
    map (\<lambda>g. (year (row g), growth_rate g))
       (calculate_growth_rate [mk_obs ''A'' 2018 0, mk_obs ''A'' 2019 5])
     = [(2018, NaN), (2019, PosInf)]"
proof -
  let ?s = "sort_key (\<lambda>r. (country r, year r)) df"
  let ?p = "pct_change Map.empty ?s"
  have rows: "map row out = ?s" unfolding out_def by (rule growth_rows)
  have rates: "map growth_rate out = map (\<lambda>g. fscale g 100) ?p"
    unfolding out_def by (rule growth_rates)
  have len: "length out = length ?s" using rows by (metis length_map)
  have row_i: "row (out ! i) = ?s ! i" if "i < length out" for i
    using that rows by (metis nth_map)
  have rate_i: "growth_rate (out ! i) = fscale (?p ! i) 100" if "i < length out" for i
  proof -
    have "growth_rate (out ! i) = map growth_rate out ! i" using that by simp
    also have "\<dots> = fscale (?p ! i) 100"
      unfolding rates using that len by (simp add: length_pct_change)
    finally show ?thesis .
  qed
  have main: "growth_rate (out ! i) =
       (if i = 0 \<or> country (row (out ! (i - 1))) \<noteq> country (row (out ! i)) then NaN
        else fscale (fsub (fdiv (val (row (out ! i))) (val (row (out ! (i - 1))))) 1) 100)"
    if i: "i < length out" for i
  proof -
    have "i - 1 < length out" using i by simp
    then have prev: "row (out ! (i - 1)) = ?s ! (i - 1)" by (rule row_i)
    have "?p ! i = (if i = 0 \<or> country (?s ! (i - 1)) \<noteq> country (?s ! i) then NaN
            else fsub (fdiv (val (?s ! i)) (val (?s ! (i - 1)))) 1)"
      using sorted_by_country i len by (intro pct_change_from_start) simp_all
    then show ?thesis
      unfolding rate_i [OF i] row_i [OF i] prev by simp
  qed
  show ?thesis
  proof (intro conjI allI impI)
    show "map row out = ?s" by (fact rows)
    show "growth_rate (out ! i) =
       (if i = 0 \<or> country (row (out ! (i - 1))) \<noteq> country (row (out ! i)) then NaN
        else fscale (fsub (fdiv (val (row (out ! i))) (val (row (out ! (i - 1))))) 1) 100)"
      if "i < length out" for i using that by (rule main)
    show "growth_rate (out ! i)
         = Fl ((val (row (out ! i)) - val (row (out ! (i - 1)))) / val (row (out ! (i - 1))) * 100)"
      if "i < length out" and "0 < i \<and> country (row (out ! (i - 1))) = country (row (out ! i)) \<and>
         val (row (out ! (i - 1))) \<noteq> 0" for i
      using main [OF that(1)] that(2) by (simp add: pct_finite)
    show "map (\<lambda>g. (year (row g), growth_rate g))
       (calculate_growth_rate [mk_obs ''A'' 2018 100, mk_obs ''A'' 2019 110, mk_obs ''A'' 2020 99])
     = [(2018, NaN), (2019, Fl 10), (2020, Fl (- 10))]" by (rule growth_sample)
    show "map (\<lambda>g. (year (row g), growth_rate g))
       (calculate_growth_rate [mk_obs ''A'' 2018 0, mk_obs ''A'' 2019 5])
     = [(2018, NaN), (2019, PosInf)]" by (rule growth_sample_zero)
  qed
qed

theorem growth_rate_keeps_every_row_witness:
  "length (calculate_growth_rate [mk_obs ''A'' 2018 100, mk_obs ''A'' 2019 110, mk_obs ''A'' 2020 99]) = 3 \<and>
   growth_rate (calculate_growth_rate [mk_obs ''A'' 2018 100, mk_obs ''A'' 2019 110, mk_obs ''A'' 2020 99] ! 0) = NaN \<and>
   growth_rate (calculate_growth_rate [mk_obs ''A'' 2018 100, mk_obs ''A'' 2019 110, mk_obs ''A'' 2020 99] ! 1) = Fl 10"
proof -
  let ?df = "[mk_obs ''A'' 2018 100, mk_obs ''A'' 2019 110, mk_obs ''A'' 2020 99]"
  let ?out = "calculate_growth_rate ?df"
  note t = growth_rate_keeps_every_row [of ?df]
  have srt: "sort_key (\<lambda>r. (country r, year r)) ?df = ?df" by code_simp
  from t have rows: "map row ?out = ?df" unfolding srt by (rule conjunct1)
  have len: "length ?out = 3" using arg_cong [OF rows, of length] by simp
  have r0: "row (?out ! 0) = mk_obs ''A'' 2018 100"
    using arg_cong [OF rows, of "\<lambda>xs. xs ! 0"] len by simp
  have r1: "row (?out ! 1) = mk_obs ''A'' 2019 110"
    using arg_cong [OF rows, of "\<lambda>xs. xs ! 1"] len by simp
  from t have a: "\<forall>i < length ?out. growth_rate (?out ! i) =
       (if i = 0 \<or> country (row (?out ! (i - 1))) \<noteq> country (row (?out ! i)) then NaN
        else fscale (fsub (fdiv (val (row (?out ! i))) (val (row (?out ! (i - 1))))) 1) 100)"
    by blast
  from a len have "growth_rate (?out ! 0) = NaN" by simp
  moreover from a len have "growth_rate (?out ! 1) =
       (if country (row (?out ! 0)) \<noteq> country (row (?out ! 1)) then NaN
        else fscale (fsub (fdiv (val (row (?out ! 1))) (val (row (?out ! 0)))) 1) 100)"
    by simp
  then have "growth_rate (?out ! 1) = Fl 10"
    unfolding r0 r1 by (simp add: mk_obs_def fdiv_def)
  ultimately show ?thesis using len by simp
qed

section \<open>Facts about the statistics\<close>

lemma stats_sample:
  "map (\<lambda>s. (s_country s, s_latest s)) (calculate_statistics [mk_obs ''A'' 2020 5, mk_obs ''A'' 2019 3])
     = [(''A'', 3)]"
  by (simp add: calculate_statistics_def rows_of_def mk_obs_def Let_def)

lemma latest_sample:
  "map (\<lambda>r. (country r, year r, val r)) (get_latest_values [mk_obs ''A'' 2020 5, mk_obs ''A'' 2019 3])
     = [(''A'', 2020, 5)]"
  by code_simp

lemma filter_map_key:
  assumes "\<And>c'. key (f c') = c'"
  shows "filter (\<lambda>s. key s = c) (map f cs) = map f (filter (\<lambda>c'. c' = c) cs)"
  by (induction cs) (simp_all add: assms)

lemma filter_eq_distinct: "distinct cs \<Longrightarrow> c \<in> set cs \<Longrightarrow> filter (\<lambda>c'. c' = c) cs = [c]"
  by (induction cs) (auto simp: filter_empty_conv)

lemma calculate_statistics_latest:
  assumes "c \<in> country ` set df"
  shows "map s_latest (filter (\<lambda>s. s_country s = c) (calculate_statistics df))
           = [last (map val (rows_of df c))]"
proof -
  let ?cs = "sort (remdups (map country df))"
  have d: "distinct ?cs" by simp
  have m: "c \<in> set ?cs" using assms by simp
  have "filter (\<lambda>s. s_country s = c) (calculate_statistics df)
      = map (\<lambda>c. let vs = map val (rows_of df c)
              in \<lparr>s_country = c, s_mean = mean vs, s_median = median vs,
                  s_min = Min (set vs), s_max = Max (set vs), s_std = std vs,
                  s_latest = last vs\<rparr>) (filter (\<lambda>c'. c' = c) ?cs)"
    unfolding calculate_statistics_def by (rule filter_map_key) (simp add: Let_def)
  also have "filter (\<lambda>c'. c' = c) ?cs = [c]" using d m by (rule filter_eq_distinct)
  finally show ?thesis by (simp add: Let_def)
qed

lemma calculate_statistics_latest_sorted:
  assumes "c \<in> country ` set df" and "sorted (map year (rows_of df c))"
  shows "\<exists>r \<in> set (rows_of df c). year r = Max (year ` set (rows_of df c)) \<and>
           map s_latest (filter (\<lambda>s. s_country s = c) (calculate_statistics df)) = [val r]"
proof -
  from assms(1) have ne: "rows_of df c \<noteq> []"
    by (auto simp: rows_of_def filter_empty_conv)
  then have "last (rows_of df c) \<in> set (rows_of df c)" by simp
  moreover have "year (last (rows_of df c)) = Max (year ` set (rows_of df c))"
    using ne assms(2) by (rule last_of_sorted_is_max)
  moreover have "last (map val (rows_of df c)) = val (last (rows_of df c))"
    using ne by (simp add: last_map)
  ultimately show ?thesis using calculate_statistics_latest [OF assms(1)] by auto
qed

section \<open>The latest value in the statistics\<close>

text \<open>
  Claim C2: the statistics report as latest the value at the country's maximum year,
  whatever the order of the rows. The code takes the value of the country's last row
  (\<open>calculate_statistics_latest\<close>), which is the value at the maximum year only when the
  country's rows come in ascending year order (\<open>calculate_statistics_latest_sorted\<close>).
  On the table with the row of 2020 (value 5) before the row of 2019 (value 3) it
  reports 3, where the value at the maximum year 2020 is 5; \<open>get_latest_values\<close>, which
  sorts by year first, reports 5 on the same table.
\<close>

theorem calculate_statistics_latest_failing_input:
  "map (\<lambda>s. (s_country s, s_latest s)) (calculate_statistics [mk_obs ''A'' 2020 5, mk_obs ''A'' 2019 3])
     = [(''A'', 3)] \<and>
   Max (year ` set [mk_obs ''A'' 2020 5, mk_obs ''A'' 2019 3]) = 2020 \<and>
   map val (filter (\<lambda>r. year r = 2020) [mk_obs ''A'' 2020 5, mk_obs ''A'' 2019 3]) = [5] \<and>
   map (\<lambda>r. (country r, year r, val r)) (get_latest_values [mk_obs ''A'' 2020 5, mk_obs ''A'' 2019 3])
     = [(''A'', 2020, 5)]"
  using stats_sample latest_sample by (simp add: mk_obs_def)

section \<open>Facts about the comparison\<close>

lemma sqrt_16: "sqrt 16 = 4"
  by (rule real_sqrt_unique) simp_all

lemma pearson_sample: "pearson (zip [1, 2, 3] [2, 4, 6]) = Fl 1"
  by (simp add: pearson_def mean_def Let_def power2_eq_square sqrt_16)

lemma value_series_sample_A:
  "value_series [mk_obs ''A'' 2018 1, mk_obs ''A'' 2019 2, mk_obs ''A'' 2020 3,
                 mk_obs ''B'' 2018 2, mk_obs ''B'' 2019 4, mk_obs ''B'' 2020 6] ''A''
     = [(0, 1), (1, 2), (2, 3)]"
  by (simp add: value_series_def mk_obs_def)

lemma value_series_sample_B:
  "value_series [mk_obs ''A'' 2018 1, mk_obs ''A'' 2019 2, mk_obs ''A'' 2020 3,
                 mk_obs ''B'' 2018 2, mk_obs ''B'' 2019 4, mk_obs ''B'' 2020 6] ''B''
     = [(3, 2), (4, 4), (5, 6)]"
  by (simp add: value_series_def mk_obs_def)

lemma compare_sample:
  "map_of (compare_countries [mk_obs ''A'' 2018 1, mk_obs ''A'' 2019 2, mk_obs ''A'' 2020 3,
                 mk_obs ''B'' 2018 2, mk_obs ''B'' 2019 4, mk_obs ''B'' 2020 6] ''A'' ''B'') ''correlation''
     = Some (PFloat NaN)"
  by (simp add: compare_countries_def value_series_sample_A value_series_sample_B corr_def align_def
      pearson_def Let_def)

lemma value_series_label:
  assumes "(i, v) \<in> set (value_series df c)"
  shows "i < length df \<and> country (df ! i) = c \<and> v = val (df ! i)"
proof -
  from assms obtain r where "(i, r) \<in> set (enumerate 0 df)" "country r = c" "v = val r"
    by (auto simp: value_series_def)
  then show ?thesis by (auto simp: in_set_enumerate_eq)
qed

lemma align_distinct_countries:
  assumes "c1 \<noteq> c2"
  shows "align (value_series df c1) (value_series df c2) = []"
proof -
  have "filter (\<lambda>(j, y). j = i) (value_series df c2) = []"
    if "(i, x) \<in> set (value_series df c1)" for i x
  proof -
    from that have "country (df ! i) = c1" by (simp add: value_series_label)
    with assms have "(i, y) \<notin> set (value_series df c2)" for y
      using value_series_label [of i y df c2] by auto
    then show ?thesis by (auto simp: filter_empty_conv)
  qed
  then show ?thesis by (auto simp: align_def)
qed

lemma corr_distinct_countries:
  "c1 \<noteq> c2 \<Longrightarrow> corr (value_series df c1) (value_series df c2) = NaN"
  by (simp add: corr_def align_distinct_countries pearson_def)

lemma compare_countries_fields:
  assumes "c1 \<in> country ` set df" and "c2 \<in> country ` set df"
  shows "compare_countries df c1 c2 =
     [(''country1'', PStr c1), (''country2'', PStr c2),
      (''mean_diff'', PFloat (Fl (mean (map val (rows_of df c1)) - mean (map val (rows_of df c2))))),
      (''median_diff'', PFloat (Fl (median (map val (rows_of df c1)) - median (map val (rows_of df c2))))),
      (''latest_diff'', PFloat (Fl (last (map val (rows_of df c1)) - last (map val (rows_of df c2))))),
      (''correlation'',
         if length (rows_of df c1) = length (rows_of df c2)
         then PFloat (corr (value_series df c1) (value_series df c2)) else PNone)]"
proof -
  have l: "length (value_series df c) = length (rows_of df c)" for c
    using arg_cong [OF value_series_vals [of df c], of length] by simp
  from assms have "value_series df c1 \<noteq> []" "value_series df c2 \<noteq> []"
    by (simp_all add: value_series_empty)
  then show ?thesis
    by (simp add: compare_countries_def Let_def value_series_vals l)
qed

lemma compare_countries_correlation_distinct:
  assumes "c1 \<in> country ` set df" and "c2 \<in> country ` set df" and "c1 \<noteq> c2"
  shows "map_of (compare_countries df c1 c2) ''correlation'' =
           Some (if length (rows_of df c1) = length (rows_of df c2) then PFloat NaN else PNone)"
  by (simp add: compare_countries_fields [OF assms(1,2)] corr_distinct_countries [OF assms(3)])

lemma compare_sample_positions:
  "pearson (zip (map snd (value_series [mk_obs ''A'' 2018 1, mk_obs ''A'' 2019 2, mk_obs ''A'' 2020 3,
                 mk_obs ''B'' 2018 2, mk_obs ''B'' 2019 4, mk_obs ''B'' 2020 6] ''A''))
                (map snd (value_series [mk_obs ''A'' 2018 1, mk_obs ''A'' 2019 2, mk_obs ''A'' 2020 3,
                 mk_obs ''B'' 2018 2, mk_obs ''B'' 2019 4, mk_obs ''B'' 2020 6] ''B''))) = Fl 1"
  unfolding value_series_sample_A value_series_sample_B using pearson_sample by simp

lemma compare_sample_latest:
  "map_of (compare_countries [mk_obs ''A'' 2020 5, mk_obs ''A'' 2019 3,
                 mk_obs ''B'' 2019 1, mk_obs ''B'' 2020 2] ''A'' ''B'') ''latest_diff''
     = Some (PFloat (Fl 1))"
  by (simp add: compare_countries_def value_series_def mk_obs_def Let_def)

section \<open>The correlation of two countries\<close>

text \<open>
  Claim C4: the comparison returns the differences of the means, of the medians and of
  the most recent values, and the correlation of the two series aligned by position
  after sorting by year. The code computes the two means and medians as claimed and
  gives no correlation for series of unequal length (\<open>compare_countries_fields\<close>), but
  \<open>Series.corr\<close> aligns the two filtered series on their row labels, which two
  different countries never share, so the coefficient is not a number for every pair
  of different countries (\<open>compare_countries_correlation_distinct\<close>); and the latest
  values are those of the last rows in frame order. On a sorted table where country B's
  values are twice country A's, the coefficient by position is 1 and the code returns
  not-a-number; on a table with country A's row of 2020 (value 5) before its row of 2019
  (value 3), the difference of the latest values against B's 2 is reported as 1.
\<close>

theorem compare_countries_correlation_failing_input:
  "map_of (compare_countries [mk_obs ''A'' 2018 1, mk_obs ''A'' 2019 2, mk_obs ''A'' 2020 3,
                 mk_obs ''B'' 2018 2, mk_obs ''B'' 2019 4, mk_obs ''B'' 2020 6] ''A'' ''B'') ''correlation''
     = Some (PFloat NaN) \<and>
   pearson (zip (map snd (value_series [mk_obs ''A'' 2018 1, mk_obs ''A'' 2019 2, mk_obs ''A'' 2020 3,
                 mk_obs ''B'' 2018 2, mk_obs ''B'' 2019 4, mk_obs ''B'' 2020 6] ''A''))
                (map snd (value_series [mk_obs ''A'' 2018 1, mk_obs ''A'' 2019 2, mk_obs ''A'' 2020 3,
                 mk_obs ''B'' 2018 2, mk_obs ''B'' 2019 4, mk_obs ''B'' 2020 6] ''B''))) = Fl 1 \<and>
   map_of (compare_countries [mk_obs ''A'' 2020 5, mk_obs ''A'' 2019 3,
                 mk_obs ''B'' 2019 1, mk_obs ''B'' 2020 2] ''A'' ''B'') ''latest_diff''
     = Some (PFloat (Fl 1))"
  using compare_sample compare_sample_positions compare_sample_latest by simp

end
